theory Spec2Isabelle
  imports Complex_Main "HOL-Library.AList" "HOL-Library.Multiset"
begin

section \<open>Strings\<close>

text \<open>
  A JavaScript string is modelled as a \<open>string\<close> whose characters are the code units
  below 256 (Latin-1). \<open>isWhiteSpace\<close> is the class that both \<open>String.prototype.trim\<close>
  and the regular expression \<open>\s\<close> use, restricted to that range: TAB, LF, VT, FF, CR,
  SPACE and NBSP.
\<close>

definition isWhiteSpace :: "char \<Rightarrow> bool" where
  "isWhiteSpace c = (of_char c \<in> {9, 10, 11, 12, 13, 32, 160 :: nat})"

definition trim :: "string \<Rightarrow> string" where
  "trim s = rev (dropWhile isWhiteSpace (rev (dropWhile isWhiteSpace s)))"

definition lowerChar :: "char \<Rightarrow> char" where
  "lowerChar c =
     (let n = (of_char c :: nat) in
      if (65 \<le> n \<and> n \<le> 90) \<or> (192 \<le> n \<and> n \<le> 222 \<and> n \<noteq> 215)
      then char_of (n + 32) else c)"

definition toLowerCase :: "string \<Rightarrow> string" where
  "toLowerCase s = map lowerChar s"

text \<open>\<open>s.replace(/\./g, "")\<close>\<close>

definition removePeriods :: "string \<Rightarrow> string" where
  "removePeriods s = filter (\<lambda>c. c \<noteq> CHR ''.'') s"

text \<open>\<open>s.replace(/\s+/g, " ")\<close>: every maximal run of white space becomes one space.\<close>

function collapseWhiteSpace :: "string \<Rightarrow> string" where
  "collapseWhiteSpace [] = []"
| "collapseWhiteSpace (c # cs) =
     (if isWhiteSpace c then CHR '' '' # collapseWhiteSpace (dropWhile isWhiteSpace cs)
      else c # collapseWhiteSpace cs)"
  by pat_completeness auto
termination
  by (relation "measure length") (auto simp: less_Suc_eq_le length_dropWhile_le)

definition normalizeStreetName :: "string \<Rightarrow> string" where
  "normalizeStreetName name = collapseWhiteSpace (removePeriods (toLowerCase (trim name)))"


section \<open>Numbers\<close>

text \<open>
  A JavaScript number is modelled as a \<open>real\<close>: rounding of doubles and NaN are outside
  the model. \<open>Number.POSITIVE_INFINITY\<close> occurs as a value only in the distance table of
  Dijkstra's algorithm, which has its own type below.
\<close>

definition digitChar :: "nat \<Rightarrow> char" where
  "digitChar n = char_of (48 + n)"

function showNat :: "nat \<Rightarrow> string" where
  "showNat n = (if n < 10 then [digitChar n] else showNat (n div 10) @ [digitChar (n mod 10)])"
  by pat_completeness auto
termination
  by (relation "measure id") auto

declare showNat.simps [simp del]

text \<open>The decimal string of an integer-valued number (a template literal \<open>${n}\<close>).\<close>

definition showInt :: "int \<Rightarrow> string" where
  "showInt i = (if i < 0 then ''-'' @ showNat (nat (- i)) else showNat (nat i))"

text \<open>
  \<open>Number.prototype.toFixed(f)\<close>: the sign, then the integer \<open>n\<close> nearest to
  \<open>|x| * 10^f\<close> (the larger one on a tie), written with at least \<open>f + 1\<close> digits and a
  point before the last \<open>f\<close>.
\<close>

definition toFixed :: "nat \<Rightarrow> real \<Rightarrow> string" where
  "toFixed f x =
     (let n = nat \<lfloor>\<bar>x\<bar> * 10 ^ f + 1 / 2\<rfloor>;
          m = showNat n;
          m' = replicate (f + 1 - length m) (CHR ''0'') @ m;
          k = length m'
      in (if x < 0 then ''-'' else []) @
         (if f = 0 then m' else take (k - f) m' @ ''.'' @ drop (k - f) m'))"

text \<open>\<open>Math.round\<close>: the nearest integer, halves upwards.\<close>

definition mathRound :: "real \<Rightarrow> int" where
  "mathRound x = \<lfloor>x + 1 / 2\<rfloor>"

section \<open>JavaScript containers\<close>

text \<open>
  A \<open>Map\<close> is an association list in insertion order with one entry for each key:
  \<open>get\<close> is \<open>map_of\<close>, \<open>set\<close> is \<open>AList.update\<close> (an existing key keeps its place), and
  \<open>values()\<close> is \<open>map snd\<close>. A \<open>Set\<close> is a list without repetitions in insertion order.
\<close>

definition mapHas :: "('k \<times> 'v) list \<Rightarrow> 'k \<Rightarrow> bool" where
  "mapHas m k = (map_of m k \<noteq> None)"

text \<open>\<open>m.get(k)?.push(x)\<close> and the like: change the value stored at a key, if there is one.\<close>

definition mapModify :: "'k \<Rightarrow> ('v \<Rightarrow> 'v) \<Rightarrow> ('k \<times> 'v) list \<Rightarrow> ('k \<times> 'v) list" where
  "mapModify k f m = (case map_of m k of None \<Rightarrow> m | Some v \<Rightarrow> AList.update k (f v) m)"

text \<open>\<open>new Map(entries)\<close>\<close>

definition mapOfEntries :: "('k \<times> 'v) list \<Rightarrow> ('k \<times> 'v) list" where
  "mapOfEntries es = foldl (\<lambda>m (k, v). AList.update k v m) [] es"

definition setHas :: "'a list \<Rightarrow> 'a \<Rightarrow> bool" where
  "setHas xs x = (x \<in> set xs)"

definition setAdd :: "'a \<Rightarrow> 'a list \<Rightarrow> 'a list" where
  "setAdd x xs = (if x \<in> set xs then xs else xs @ [x])"

section \<open>Geo primitives\<close>

record LatLng =
  lat :: real
  lon :: real

text \<open>\<open>Math.atan2(y, x)\<close>\<close>

definition atan2 :: "real \<Rightarrow> real \<Rightarrow> real" where
  "atan2 y x =
     (if 0 < x then arctan (y / x)
      else if x < 0 then (if 0 \<le> y then arctan (y / x) + pi else arctan (y / x) - pi)
      else if 0 < y then pi / 2
      else if y < 0 then - (pi / 2)
      else 0)"

definition toRad :: "real \<Rightarrow> real" where
  "toRad v = v * pi / 180"

definition haversineKm :: "LatLng \<Rightarrow> LatLng \<Rightarrow> real" where
  "haversineKm a b =
     (let dLat = toRad (lat b - lat a);
          dLon = toRad (lon b - lon a);
          lat1 = toRad (lat a);
          lat2 = toRad (lat b);
          sinLat = sin (dLat / 2);
          sinLon = sin (dLon / 2);
          c = sinLat * sinLat + cos lat1 * cos lat2 * sinLon * sinLon
      in 6371 * 2 * atan2 (sqrt c) (sqrt (1 - c)))"

text \<open>The loop of \<open>polylineDistanceKm\<close>, with its running total.\<close>

fun polylineSum :: "real \<Rightarrow> LatLng list \<Rightarrow> real" where
  "polylineSum tot (p # q # ps) = polylineSum (tot + haversineKm p q) (q # ps)"
| "polylineSum tot ps = tot"

definition polylineDistanceKm :: "LatLng list \<Rightarrow> real" where
  "polylineDistanceKm path = (if length path < 2 then 0 else polylineSum 0 path)"

section \<open>Street segments and the street graph\<close>

datatype SegmentSource = Osm | Manual

record StreetSegment =
  seg_id :: string
  seg_name :: string
  seg_path :: "LatLng list"
  seg_startNodeId :: "string option"
  seg_endNodeId :: "string option"
  seg_completed :: bool
  seg_source :: SegmentSource

record GraphNode =
  node_id :: string
  node_point :: LatLng
  node_edgeIds :: "string list"

record GraphEdge =
  edge_id :: string
  edge_streetId :: string
  edge_streetName :: string
  edge_from :: string
  edge_to :: string
  edge_path :: "LatLng list"
  edge_distanceKm :: real

record GraphNeighbor =
  nb_edgeId :: string
  nb_neighbor :: string

record StreetGraph =
  nodes :: "(string \<times> GraphNode) list"
  edges :: "(string \<times> GraphEdge) list"
  adjacency :: "(string \<times> GraphNeighbor list) list"

definition quantizePoint :: "LatLng \<Rightarrow> string" where
  "quantizePoint point = toFixed 5 (lat point) @ '','' @ toFixed 5 (lon point)"

datatype Endpoint = Start | End

text \<open>
  \<open>street.startNodeId ?? quantizePoint(street.path[0])\<close>. The result \<open>None\<close> stands for
  the TypeError of reading \<open>.lat\<close> of \<open>undefined\<close>, when the path is empty and the
  segment carries no node id.
\<close>

definition nodeIdForStreetEndpoint :: "StreetSegment \<Rightarrow> Endpoint \<Rightarrow> string option" where
  "nodeIdForStreetEndpoint street endpoint =
     (case endpoint of
        Start \<Rightarrow>
          (case seg_startNodeId street of
             Some n \<Rightarrow> Some n
           | None \<Rightarrow> (case seg_path street of [] \<Rightarrow> None | p # _ \<Rightarrow> Some (quantizePoint p)))
      | End \<Rightarrow>
          (case seg_endNodeId street of
             Some n \<Rightarrow> Some n
           | None \<Rightarrow> (if seg_path street = [] then None
                      else Some (quantizePoint (last (seg_path street))))))"

definition emptyGraph :: StreetGraph where
  "emptyGraph = \<lparr>nodes = [], edges = [], adjacency = []\<rparr>"

text \<open>
  One iteration of the loop of \<open>buildStreetGraph\<close>. The path has two points at least
  where the node ids are computed, so the TypeError of \<open>nodeIdForStreetEndpoint\<close> cannot
  occur there; the model leaves the graph as it is in that branch.
\<close>

definition addStreet :: "StreetGraph \<Rightarrow> StreetSegment \<Rightarrow> StreetGraph" where
  "addStreet g street =
     (if length (seg_path street) < 2 then g
      else
        (case (nodeIdForStreetEndpoint street Start, nodeIdForStreetEndpoint street End) of
           (Some from, Some to) \<Rightarrow>
             (let startPoint = hd (seg_path street);
                  endPoint = last (seg_path street);
                  edgeId = seg_id street;
                  nodes1 = (if mapHas (nodes g) from then nodes g
                            else AList.update from
                              \<lparr>node_id = from, node_point = startPoint, node_edgeIds = []\<rparr> (nodes g));
                  nodes2 = (if mapHas nodes1 to then nodes1
                            else AList.update to
                              \<lparr>node_id = to, node_point = endPoint, node_edgeIds = []\<rparr> nodes1);
                  edge = \<lparr>edge_id = edgeId, edge_streetId = seg_id street,
                          edge_streetName = seg_name street, edge_from = from, edge_to = to,
                          edge_path = seg_path street,
                          edge_distanceKm = polylineDistanceKm (seg_path street)\<rparr>;
                  edges1 = AList.update edgeId edge (edges g);
                  nodes3 = mapModify from
                             (\<lambda>n. n\<lparr>node_edgeIds := node_edgeIds n @ [edgeId]\<rparr>) nodes2;
                  nodes4 = mapModify to
                             (\<lambda>n. n\<lparr>node_edgeIds := node_edgeIds n @ [edgeId]\<rparr>) nodes3;
                  adj1 = (if mapHas (adjacency g) from then adjacency g
                          else AList.update from [] (adjacency g));
                  adj2 = (if mapHas adj1 to then adj1 else AList.update to [] adj1);
                  adj3 = mapModify from
                           (\<lambda>l. l @ [\<lparr>nb_edgeId = edgeId, nb_neighbor = to\<rparr>]) adj2;
                  adj4 = mapModify to
                           (\<lambda>l. l @ [\<lparr>nb_edgeId = edgeId, nb_neighbor = from\<rparr>]) adj3
              in \<lparr>nodes = nodes4, edges = edges1, adjacency = adj4\<rparr>)
         | _ \<Rightarrow> g))"

definition buildStreetGraph :: "StreetSegment list \<Rightarrow> StreetGraph" where
  "buildStreetGraph streets = foldl addStreet emptyGraph streets"

text \<open>\<open>graph.adjacency.get(nodeId) ?? []\<close>\<close>

definition neighborsOf :: "StreetGraph \<Rightarrow> string \<Rightarrow> GraphNeighbor list" where
  "neighborsOf g nodeId = (case map_of (adjacency g) nodeId of None \<Rightarrow> [] | Some l \<Rightarrow> l)"

text \<open>\<open>graph.adjacency.get(nodeId)?.length ?? 0\<close>\<close>

definition degreeOf :: "StreetGraph \<Rightarrow> string \<Rightarrow> nat" where
  "degreeOf g nodeId = length (neighborsOf g nodeId)"

text \<open>How many entries of the adjacency list of a node carry a given edge id.\<close>

definition adjacencyCount :: "StreetGraph \<Rightarrow> string \<Rightarrow> string \<Rightarrow> nat" where
  "adjacencyCount g nodeId edgeId =
     length (filter (\<lambda>nb. nb_edgeId nb = edgeId) (neighborsOf g nodeId))"

text \<open>
  The ids of the segments that become edges (those with two path points at least), and
  two properties of a graph: every edge is stored under its own id, and the adjacency
  lists hold, for each node and edge id, as many entries as the edge has endpoints at
  that node.
\<close>

definition usableIds :: "StreetSegment list \<Rightarrow> string list" where
  "usableIds streets = map seg_id (filter (\<lambda>s. 2 \<le> length (seg_path s)) streets)"

definition edgesKeyedById :: "StreetGraph \<Rightarrow> bool" where
  "edgesKeyedById g = (\<forall>k e. map_of (edges g) k = Some e \<longrightarrow> edge_id e = k)"

definition adjacencyMatchesEdges :: "StreetGraph \<Rightarrow> bool" where
  "adjacencyMatchesEdges g =
     (\<forall>n eid. adjacencyCount g n eid =
        (case map_of (edges g) eid of
           None \<Rightarrow> 0
         | Some e \<Rightarrow> (if edge_from e = n then 1 else 0) + (if edge_to e = n then 1 else 0)))"

subsection \<open>Example segments\<close>

text \<open>
  A closed way that shares no node with another way (its first node is its last), as
  \<open>parseOverpassResponse\<close> emits it, and a manually imported segment with a given id.
\<close>

definition ringRoad :: StreetSegment where
  "ringRoad =
     \<lparr>seg_id = ''osm-7-1-1-1'', seg_name = ''Ring Road'',
      seg_path = [\<lparr>lat = 0, lon = 0\<rparr>, \<lparr>lat = 1 / 1000, lon = 0\<rparr>, \<lparr>lat = 0, lon = 0\<rparr>],
      seg_startNodeId = Some ''osm-node-1'', seg_endNodeId = Some ''osm-node-1'',
      seg_completed = False, seg_source = Osm\<rparr>"

definition elmStreet :: "string \<Rightarrow> StreetSegment" where
  "elmStreet i =
     \<lparr>seg_id = i, seg_name = ''Elm Street'',
      seg_path = [\<lparr>lat = 0, lon = 0\<rparr>, \<lparr>lat = 1 / 1000, lon = 0\<rparr>],
      seg_startNodeId = Some ''A'', seg_endNodeId = Some ''B'',
      seg_completed = False, seg_source = Manual\<rparr>"

section \<open>Dataset ingest: the Overpass payload\<close>

datatype ElementType = NodeElement | WayElement

record OverpassWayTags =
  tag_name :: "string option"
  tag_ref :: "string option"
  tag_alt_name :: "string option"
  tag_official_name :: "string option"
  tag_highway :: "string option"
  tag_access :: "string option"
  tag_foot :: "string option"
  tag_area :: "string option"
  tag_service :: "string option"

record OverpassElement =
  el_type :: ElementType
  el_id :: int
  el_lat :: "real option"
  el_lon :: "real option"
  el_nodes :: "int list option"
  el_tags :: "OverpassWayTags option"

record OverpassPayload =
  payload_elements :: "OverpassElement list option"

record OverpassWay =
  way_id :: int
  way_name :: string
  way_nodes :: "int list"

text \<open>\<open>tags.key?.trim().toLowerCase()\<close>\<close>

definition trimLower :: "string option \<Rightarrow> string option" where
  "trimLower v = map_option (\<lambda>s. toLowerCase (trim s)) v"

definition allowedRoadTypes :: "string list" where
  "allowedRoadTypes =
     [''residential'', ''unclassified'', ''tertiary'', ''secondary'', ''primary'',
      ''living_street'']"

definition isRunnableCityStreet :: "OverpassWayTags option \<Rightarrow> bool" where
  "isRunnableCityStreet tags =
     (case tags of
        None \<Rightarrow> False
      | Some t \<Rightarrow>
          (case trimLower (tag_highway t) of
             None \<Rightarrow> False
           | Some highway \<Rightarrow>
               if highway = [] then False
               else if \<not> setHas allowedRoadTypes highway then False
               else if trimLower (tag_access t) = Some ''private'' \<or>
                       trimLower (tag_access t) = Some ''no'' then False
               else if trimLower (tag_foot t) = Some ''private'' \<or>
                       trimLower (tag_foot t) = Some ''no'' then False
               else if trimLower (tag_area t) = Some ''yes'' then False
               else (case tag_name t of None \<Rightarrow> False | Some n \<Rightarrow> trim n \<noteq> [])))"

definition elementsOf :: "OverpassPayload \<Rightarrow> OverpassElement list" where
  "elementsOf payload = (case payload_elements payload of None \<Rightarrow> [] | Some es \<Rightarrow> es)"

text \<open>The first loop of \<open>parseOverpassResponse\<close>: the coordinates of the nodes.\<close>

definition collectNodeMap :: "OverpassPayload \<Rightarrow> (int \<times> LatLng) list" where
  "collectNodeMap payload =
     foldl (\<lambda>nodeMap element.
        (case (el_type element, el_lat element, el_lon element) of
           (NodeElement, Some la, Some lo) \<Rightarrow>
             AList.update (el_id element) \<lparr>lat = la, lon = lo\<rparr> nodeMap
         | _ \<Rightarrow> nodeMap)) [] (elementsOf payload)"

text \<open>The second loop: the ways that are kept.\<close>

definition retainedWay :: "OverpassElement \<Rightarrow> OverpassWay option" where
  "retainedWay element =
     (if el_type element \<noteq> WayElement then None
      else if \<not> isRunnableCityStreet (el_tags element) then None
      else
        (case el_nodes element of
           None \<Rightarrow> None
         | Some ns \<Rightarrow>
             if length ns < 2 then None
             else
               (case Option.bind (el_tags element) tag_name of
                  None \<Rightarrow> None
                | Some n \<Rightarrow>
                    if trim n = [] then None
                    else Some \<lparr>way_id = el_id element, way_name = trim n, way_nodes = ns\<rparr>)))"

definition retainedWays :: "OverpassPayload \<Rightarrow> OverpassWay list" where
  "retainedWays payload = List.map_filter retainedWay (elementsOf payload)"

text \<open>The usage count of each node over the node lists of the kept ways.\<close>

definition usageCount :: "(int \<times> nat) list \<Rightarrow> int \<Rightarrow> nat" where
  "usageCount nodeUsage nodeId = (case map_of nodeUsage nodeId of None \<Rightarrow> 0 | Some c \<Rightarrow> c)"

definition bumpUsage :: "(int \<times> nat) list \<Rightarrow> int \<Rightarrow> (int \<times> nat) list" where
  "bumpUsage nodeUsage nodeId = AList.update nodeId (usageCount nodeUsage nodeId + 1) nodeUsage"

definition countNodeUsage :: "OverpassWay list \<Rightarrow> (int \<times> nat) list" where
  "countNodeUsage ways = foldl (\<lambda>nodeUsage way. foldl bumpUsage nodeUsage (way_nodes way)) [] ways"

text \<open>
  The loop that fills \<open>path\<close> from the node ids of a segment; \<open>None\<close> is
  \<open>hasMissingNode\<close>.
\<close>

fun collectPath :: "(int \<times> LatLng) list \<Rightarrow> int list \<Rightarrow> LatLng list option" where
  "collectPath nodeMap [] = Some []"
| "collectPath nodeMap (n # ns) =
     (case map_of nodeMap n of
        None \<Rightarrow> None
      | Some p \<Rightarrow> map_option ((#) p) (collectPath nodeMap ns))"

definition splitIndices :: "(int \<times> nat) list \<Rightarrow> int list \<Rightarrow> nat list" where
  "splitIndices nodeUsage ns =
     foldl (\<lambda>s i. if 1 < usageCount nodeUsage (ns ! i) then setAdd i s else s)
       (setAdd (length ns - 1) (setAdd 0 []))
       [1..<length ns - 1]"

definition orderedSplits :: "(int \<times> nat) list \<Rightarrow> int list \<Rightarrow> nat list" where
  "orderedSplits nodeUsage ns = sort (splitIndices nodeUsage ns)"

text \<open>\<open>nodes.slice(fromIndex, toIndex + 1)\<close>\<close>

definition sliceNodes :: "nat \<Rightarrow> nat \<Rightarrow> 'a list \<Rightarrow> 'a list" where
  "sliceNodes fromIndex toIndex ns = take (toIndex + 1 - fromIndex) (drop fromIndex ns)"

definition osmSegment :: "string \<Rightarrow> string \<Rightarrow> LatLng list \<Rightarrow> int \<Rightarrow> int \<Rightarrow> StreetSegment" where
  "osmSegment ident nm p startNodeRaw endNodeRaw =
     \<lparr>seg_id = ident, seg_name = nm, seg_path = p,
      seg_startNodeId = Some (''osm-node-'' @ showInt startNodeRaw),
      seg_endNodeId = Some (''osm-node-'' @ showInt endNodeRaw),
      seg_completed = False, seg_source = Osm\<rparr>"

text \<open>The body of the loop over the ordered split indices, for the index \<open>i\<close>.\<close>

definition splitSegment ::
  "(int \<times> LatLng) list \<Rightarrow> OverpassWay \<Rightarrow> nat list \<Rightarrow> nat \<Rightarrow> StreetSegment option" where
  "splitSegment nodeMap way splits i =
     (let fromIndex = splits ! (i - 1);
          toIndex = splits ! i
      in if toIndex \<le> fromIndex then None
         else
           (let segmentNodeIds = sliceNodes fromIndex toIndex (way_nodes way)
            in if length segmentNodeIds < 2 then None
               else
                 (case collectPath nodeMap segmentNodeIds of
                    None \<Rightarrow> None
                  | Some p \<Rightarrow>
                      if length p < 2 then None
                      else
                        (let startNodeRaw = hd segmentNodeIds;
                             endNodeRaw = last segmentNodeIds
                         in Some (osmSegment
                              (''osm-'' @ showInt (way_id way) @ ''-'' @ showInt startNodeRaw @
                               ''-'' @ showInt endNodeRaw @ ''-'' @ showNat i)
                              (way_name way) p startNodeRaw endNodeRaw)))))"

definition waySegments ::
  "(int \<times> LatLng) list \<Rightarrow> (int \<times> nat) list \<Rightarrow> OverpassWay \<Rightarrow> StreetSegment list" where
  "waySegments nodeMap nodeUsage way =
     (let splits = orderedSplits nodeUsage (way_nodes way)
      in List.map_filter (splitSegment nodeMap way splits) [1..<length splits])"

text \<open>The fallback pass: the whole way as one segment.\<close>

definition wholeWaySegment :: "(int \<times> LatLng) list \<Rightarrow> OverpassWay \<Rightarrow> StreetSegment option" where
  "wholeWaySegment nodeMap way =
     (case collectPath nodeMap (way_nodes way) of
        None \<Rightarrow> None
      | Some p \<Rightarrow>
          if length p < 2 then None
          else Some (osmSegment (''osm-'' @ showInt (way_id way)) (way_name way) p
                 (hd (way_nodes way)) (last (way_nodes way))))"

definition parseOverpassResponse :: "OverpassPayload \<Rightarrow> StreetSegment list" where
  "parseOverpassResponse payload =
     (let nodeMap = collectNodeMap payload;
          ways = retainedWays payload
      in if ways = [] then []
         else
           (let nodeUsage = countNodeUsage ways;
                segments = concat (map (waySegments nodeMap nodeUsage) ways)
            in if segments = [] then List.map_filter (wholeWaySegment nodeMap) ways
               else segments))"

subsection \<open>The splitting rule in the words of the specification\<close>

text \<open>
  How often a node id occurs in the node lists of the kept ways; the split points of a
  way (its first index, the interior indices whose node occurs twice at least, its last
  index); and the segments of a way: between each two consecutive split points one
  segment, when all its nodes have coordinates.
\<close>

definition occurrences :: "OverpassWay list \<Rightarrow> int \<Rightarrow> nat" where
  "occurrences ways nodeId = sum_list (map (\<lambda>w. count_list (way_nodes w) nodeId) ways)"

definition splitPoints :: "OverpassWay list \<Rightarrow> int list \<Rightarrow> nat list" where
  "splitPoints ways ns =
     0 # filter (\<lambda>i. 2 \<le> occurrences ways (ns ! i)) [1..<length ns - 1] @ [length ns - 1]"

definition splitSegmentsSpec ::
  "(int \<times> LatLng) list \<Rightarrow> OverpassWay list \<Rightarrow> OverpassWay \<Rightarrow> StreetSegment list" where
  "splitSegmentsSpec nodeMap ways way =
     (let ns = way_nodes way; sp = splitPoints ways ns
      in concat (map (\<lambda>i.
           (case collectPath nodeMap (sliceNodes (sp ! (i - 1)) (sp ! i) ns) of
              None \<Rightarrow> []
            | Some p \<Rightarrow>
                [osmSegment
                   (''osm-'' @ showInt (way_id way) @ ''-'' @ showInt (ns ! (sp ! (i - 1))) @
                    ''-'' @ showInt (ns ! (sp ! i)) @ ''-'' @ showNat i)
                   (way_name way) p (ns ! (sp ! (i - 1))) (ns ! (sp ! i))]))
           [1..<length sp]))"

subsection \<open>Example payloads\<close>

definition runnableTags :: "string \<Rightarrow> OverpassWayTags" where
  "runnableTags n =
     \<lparr>tag_name = Some n, tag_ref = None, tag_alt_name = None, tag_official_name = None,
      tag_highway = Some ''residential'', tag_access = None, tag_foot = None, tag_area = None,
      tag_service = None\<rparr>"

definition nodeElement :: "int \<Rightarrow> real \<Rightarrow> real \<Rightarrow> OverpassElement" where
  "nodeElement i la lo =
     \<lparr>el_type = NodeElement, el_id = i, el_lat = Some la, el_lon = Some lo, el_nodes = None,
      el_tags = None\<rparr>"

definition wayElement :: "int \<Rightarrow> string \<Rightarrow> int list \<Rightarrow> OverpassElement" where
  "wayElement i n ns =
     \<lparr>el_type = WayElement, el_id = i, el_lat = None, el_lon = None, el_nodes = Some ns,
      el_tags = Some (runnableTags n)\<rparr>"

text \<open>Way 5 through nodes 1, 2, 3 and way 6 through nodes 2, 5: node 2 is shared.\<close>

definition sharedNodePayload :: OverpassPayload where
  "sharedNodePayload =
     \<lparr>payload_elements = Some
        [nodeElement 1 0 0, nodeElement 2 0 1, nodeElement 3 0 2, nodeElement 5 1 1,
         wayElement 5 ''Oak Avenue'' [1, 2, 3], wayElement 6 ''Pine Street'' [2, 5]]\<rparr>"

text \<open>The same ways, with no coordinates for node 3.\<close>

definition missingNodePayload :: OverpassPayload where
  "missingNodePayload =
     \<lparr>payload_elements = Some
        [nodeElement 1 0 0, nodeElement 2 0 1, nodeElement 5 1 1,
         wayElement 5 ''Oak Avenue'' [1, 2, 3], wayElement 6 ''Pine Street'' [2, 5]]\<rparr>"

text \<open>One way that passes node 2 twice, and no other way.\<close>

definition figureEightPayload :: OverpassPayload where
  "figureEightPayload =
     \<lparr>payload_elements = Some
        [nodeElement 1 0 0, nodeElement 2 0 1, nodeElement 3 1 1, nodeElement 4 0 2,
         wayElement 5 ''Oak Avenue'' [1, 2, 3, 2, 4]]\<rparr>"

text \<open>One way of two nodes, the second without coordinates.\<close>

definition noCoordinatesPayload :: OverpassPayload where
  "noCoordinatesPayload =
     \<lparr>payload_elements = Some [nodeElement 1 0 0, wayElement 5 ''Oak Avenue'' [1, 2]]\<rparr>"

section \<open>Shortest-path engine\<close>

subsection \<open>The binary min-heap\<close>

text \<open>
  \<open>MinHeap<T>\<close>: the array \<open>data\<close> and the comparison \<open>compare\<close> of the constructor.
  \<open>bubbleUp\<close> and \<open>bubbleDown\<close> are the two private loops.
\<close>

definition swapAt :: "'a list \<Rightarrow> nat \<Rightarrow> nat \<Rightarrow> 'a list" where
  "swapAt xs i j = xs[i := xs ! j, j := xs ! i]"

function bubbleUp :: "('a \<Rightarrow> 'a \<Rightarrow> real) \<Rightarrow> 'a list \<Rightarrow> nat \<Rightarrow> 'a list" where
  "bubbleUp compare xs current =
     (if 0 < current then
        (let parent = (current - 1) div 2
         in if 0 \<le> compare (xs ! current) (xs ! parent) then xs
            else bubbleUp compare (swapAt xs current parent) parent)
      else xs)"
  by pat_completeness auto
termination
  by (relation "measure (\<lambda>(compare, xs, current). current)") auto

declare bubbleUp.simps [simp del]

definition smallestOf :: "('a \<Rightarrow> 'a \<Rightarrow> real) \<Rightarrow> 'a list \<Rightarrow> nat \<Rightarrow> nat" where
  "smallestOf compare xs current =
     (let left = current * 2 + 1;
          right = left + 1;
          smallest = current;
          smallest1 = (if left < length xs \<and> compare (xs ! left) (xs ! smallest) < 0
                       then left else smallest);
          smallest2 = (if right < length xs \<and> compare (xs ! right) (xs ! smallest1) < 0
                       then right else smallest1)
      in smallest2)"

lemma smallestOf_cases:
  "smallestOf compare xs current = current \<or>
   (current < smallestOf compare xs current \<and> smallestOf compare xs current < length xs)"
  by (auto simp: smallestOf_def Let_def)

function bubbleDown :: "('a \<Rightarrow> 'a \<Rightarrow> real) \<Rightarrow> 'a list \<Rightarrow> nat \<Rightarrow> 'a list" where
  "bubbleDown compare xs current =
     (let smallest = smallestOf compare xs current
      in if smallest = current then xs
         else bubbleDown compare (swapAt xs current smallest) smallest)"
  by pat_completeness auto
termination
proof (relation "measure (\<lambda>(compare, xs, current). length xs - current)", goal_cases)
  case 1
  then show ?case by simp
next
  case (2 compare xs current smallest)
  then show ?case
    using smallestOf_cases[of compare xs current] by (auto simp: swapAt_def)
qed

declare bubbleDown.simps [simp del]

definition heapPush :: "('a \<Rightarrow> 'a \<Rightarrow> real) \<Rightarrow> 'a \<Rightarrow> 'a list \<Rightarrow> 'a list" where
  "heapPush compare v xs = bubbleUp compare (xs @ [v]) (length xs)"

text \<open>\<open>pop\<close> returns the top (\<open>None\<close> for \<open>undefined\<close>) and the array that is left.\<close>

definition heapPop :: "('a \<Rightarrow> 'a \<Rightarrow> real) \<Rightarrow> 'a list \<Rightarrow> 'a option \<times> 'a list" where
  "heapPop compare xs =
     (case xs of
        [] \<Rightarrow> (None, [])
      | topValue # _ \<Rightarrow>
          (let endValue = last xs; rest = butlast xs
           in if 0 < length rest then (Some topValue, bubbleDown compare (rest[0 := endValue]) 0)
              else (Some topValue, rest)))"

subsection \<open>Dijkstra's algorithm\<close>

text \<open>The values of the table \<open>dist\<close>: a number or \<open>Number.POSITIVE_INFINITY\<close>.\<close>

datatype Distance = Finite real | Infinity

fun lessDistance :: "real \<Rightarrow> Distance \<Rightarrow> bool" where
  "lessDistance x (Finite y) = (x < y)"
| "lessDistance x Infinity = True"

fun greaterDistance :: "real \<Rightarrow> Distance \<Rightarrow> bool" where
  "greaterDistance x (Finite y) = (y < x)"
| "greaterDistance x Infinity = False"

fun distanceAtMost :: "Distance \<Rightarrow> real \<Rightarrow> bool" where
  "distanceAtMost (Finite d) x = (d \<le> x)"
| "distanceAtMost Infinity x = False"

record PrevStep =
  prev_nodeId :: string
  prev_edgeId :: string

record DijkstraResult =
  dist :: "(string \<times> Distance) list"
  prev :: "(string \<times> PrevStep) list"

record HeapEntry =
  he_nodeId :: string
  he_distance :: real

definition compareEntries :: "HeapEntry \<Rightarrow> HeapEntry \<Rightarrow> real" where
  "compareEntries a b = he_distance a - he_distance b"

record DijkstraState =
  ds_dist :: "(string \<times> Distance) list"
  ds_prev :: "(string \<times> PrevStep) list"
  ds_heap :: "HeapEntry list"

text \<open>\<open>dist.get(nodeId) ?? Number.POSITIVE_INFINITY\<close>\<close>

definition distanceOf :: "(string \<times> Distance) list \<Rightarrow> string \<Rightarrow> Distance" where
  "distanceOf d nodeId = (case map_of d nodeId of None \<Rightarrow> Infinity | Some x \<Rightarrow> x)"

text \<open>The body of the loop over the neighbors of the node that was popped.\<close>

definition relaxNeighbor ::
  "StreetGraph \<Rightarrow> HeapEntry \<Rightarrow> DijkstraState \<Rightarrow> GraphNeighbor \<Rightarrow> DijkstraState" where
  "relaxNeighbor g current st neighbor =
     (case map_of (edges g) (nb_edgeId neighbor) of
        None \<Rightarrow> st
      | Some edge \<Rightarrow>
          (let nextDistance = he_distance current + edge_distanceKm edge;
               known = distanceOf (ds_dist st) (nb_neighbor neighbor)
           in if lessDistance nextDistance known then
                \<lparr>ds_dist = AList.update (nb_neighbor neighbor) (Finite nextDistance) (ds_dist st),
                 ds_prev = AList.update (nb_neighbor neighbor)
                    \<lparr>prev_nodeId = he_nodeId current, prev_edgeId = nb_edgeId neighbor\<rparr>
                    (ds_prev st),
                 ds_heap = heapPush compareEntries
                    \<lparr>he_nodeId = nb_neighbor neighbor, he_distance = nextDistance\<rparr> (ds_heap st)\<rparr>
              else st))"

text \<open>
  The loop \<open>while (heap.size > 0)\<close>. Nothing in the source bounds it, so the model is a
  partial function: \<open>None\<close> means that the loop does not end.
\<close>

partial_function (option) dijkstraLoop :: "StreetGraph \<Rightarrow> DijkstraState \<Rightarrow> DijkstraResult option"
  where
  "dijkstraLoop g st =
     (if 0 < length (ds_heap st) then
        (case heapPop compareEntries (ds_heap st) of
           (None, rest) \<Rightarrow> Some \<lparr>dist = ds_dist st, prev = ds_prev st\<rparr>
         | (Some current, rest) \<Rightarrow>
             (let st1 = st\<lparr>ds_heap := rest\<rparr>;
                  best = distanceOf (ds_dist st1) (he_nodeId current)
              in if greaterDistance (he_distance current) best then dijkstraLoop g st1
                 else dijkstraLoop g
                        (foldl (relaxNeighbor g current) st1 (neighborsOf g (he_nodeId current)))))
      else Some \<lparr>dist = ds_dist st, prev = ds_prev st\<rparr>)"

definition initialDistances :: "StreetGraph \<Rightarrow> string \<Rightarrow> (string \<times> Distance) list" where
  "initialDistances g startNodeId =
     AList.update startNodeId (Finite 0)
       (foldl (\<lambda>d nodeId. AList.update nodeId Infinity d) [] (map fst (nodes g)))"

definition runDijkstra :: "StreetGraph \<Rightarrow> string \<Rightarrow> DijkstraResult option" where
  "runDijkstra g startNodeId =
     dijkstraLoop g
       \<lparr>ds_dist = initialDistances g startNodeId, ds_prev = [],
        ds_heap = heapPush compareEntries \<lparr>he_nodeId = startNodeId, he_distance = 0\<rparr> []\<rparr>"

text \<open>
  \<open>getDijkstraCached\<close> returns the result and the cache, which it may have extended.
\<close>

definition getDijkstraCached ::
  "(string \<times> DijkstraResult) list \<Rightarrow> StreetGraph \<Rightarrow> string \<Rightarrow>
   (DijkstraResult \<times> (string \<times> DijkstraResult) list) option" where
  "getDijkstraCached cache g startNodeId =
     (case map_of cache startNodeId of
        Some cached \<Rightarrow> Some (cached, cache)
      | None \<Rightarrow>
          (case runDijkstra g startNodeId of
             None \<Rightarrow> None
           | Some computed \<Rightarrow> Some (computed, AList.update startNodeId computed cache)))"

text \<open>
  The loop of \<open>reconstructPathEdges\<close>, which follows \<open>prev\<close> from the end node; \<open>acc\<close> is
  the array \<open>edges\<close> in the order of its pushes. The loop has no bound either.
\<close>

partial_function (option) walkPrev ::
  "(string \<times> PrevStep) list \<Rightarrow> string \<Rightarrow> string \<Rightarrow> string list \<Rightarrow> string list option" where
  "walkPrev pr startNodeId cursor acc =
     (if cursor \<noteq> startNodeId then
        (case map_of pr cursor of
           None \<Rightarrow> Some []
         | Some step \<Rightarrow> walkPrev pr startNodeId (prev_nodeId step) (acc @ [prev_edgeId step]))
      else Some (rev acc))"

definition reconstructPathEdges :: "DijkstraResult \<Rightarrow> string \<Rightarrow> string \<Rightarrow> string list option" where
  "reconstructPathEdges result startNodeId endNodeId =
     (if startNodeId = endNodeId then Some []
      else walkPrev (prev result) startNodeId endNodeId [])"

section \<open>Distances to a path, city bounds\<close>

definition toMetersX :: "real \<Rightarrow> real \<Rightarrow> real" where
  "toMetersX lo originLat = lo * (cos (originLat * pi / 180) * 111320)"

definition toMetersY :: "real \<Rightarrow> real" where
  "toMetersY la = la * 111320"

text \<open>\<open>Math.hypot(dx, dy)\<close>\<close>

definition hypot :: "real \<Rightarrow> real \<Rightarrow> real" where
  "hypot dx dy = sqrt (dx * dx + dy * dy)"

definition distancePointToSegmentMeters :: "LatLng \<Rightarrow> LatLng \<Rightarrow> LatLng \<Rightarrow> real" where
  "distancePointToSegmentMeters p a b =
     (let originLat = (lat p + lat a + lat b) / 3;
          ppx = toMetersX (lon p) originLat; ppy = toMetersY (lat p);
          apx' = toMetersX (lon a) originLat; apy' = toMetersY (lat a);
          bpx = toMetersX (lon b) originLat; bpy = toMetersY (lat b);
          abx = bpx - apx';
          aby = bpy - apy';
          apx = ppx - apx';
          apy = ppy - apy';
          ab2 = abx * abx + aby * aby
      in if ab2 = 0 then hypot (ppx - apx') (ppy - apy')
         else
           (let t = max 0 (min 1 ((apx * abx + apy * aby) / ab2));
                closestX = apx' + abx * t;
                closestY = apy' + aby * t
            in hypot (ppx - closestX) (ppy - closestY)))"

text \<open>The loop of \<open>distancePointToPathMeters\<close>, with its running minimum.\<close>

fun minDistanceLoop :: "LatLng \<Rightarrow> Distance \<Rightarrow> LatLng list \<Rightarrow> Distance" where
  "minDistanceLoop point minDistance (a # b # ps) =
     (let distance = distancePointToSegmentMeters point a b
      in minDistanceLoop point
           (if lessDistance distance minDistance then Finite distance else minDistance) (b # ps))"
| "minDistanceLoop point minDistance ps = minDistance"

definition distancePointToPathMeters :: "LatLng \<Rightarrow> LatLng list \<Rightarrow> Distance" where
  "distancePointToPathMeters point path =
     (if length path < 2 then Infinity else minDistanceLoop point Infinity path)"

record RouteNode =
  rn_id :: string
  rn_point :: LatLng

definition NODE_CAPTURE_RADIUS_METERS :: real where
  "NODE_CAPTURE_RADIUS_METERS = 6096 / 1000"

definition coveredNodeIdsForPath :: "LatLng list \<Rightarrow> RouteNode list \<Rightarrow> string list" where
  "coveredNodeIdsForPath points ns =
     map rn_id
       (filter (\<lambda>node. distanceAtMost (distancePointToPathMeters (rn_point node) points)
                         NODE_CAPTURE_RADIUS_METERS) ns)"

record CityBounds =
  south :: real
  north :: real
  west :: real
  east :: real

definition isPointInCityBounds :: "LatLng \<Rightarrow> CityBounds \<Rightarrow> real \<Rightarrow> bool" where
  "isPointInCityBounds point bounds paddingMeters =
     (let midLat = (south bounds + north bounds) / 2;
          latPadding = paddingMeters / 111320;
          lonScale = max (15 / 100) (cos (midLat * pi / 180));
          lonPadding = paddingMeters / (111320 * lonScale)
      in south bounds - latPadding \<le> lat point \<and>
         lat point \<le> north bounds + latPadding \<and>
         west bounds - lonPadding \<le> lon point \<and>
         lon point \<le> east bounds + lonPadding)"

definition isStreetInsideCityBounds :: "StreetSegment \<Rightarrow> CityBounds \<Rightarrow> bool" where
  "isStreetInsideCityBounds street bounds =
     (if length (seg_path street) < 2 then False
      else if \<not> isPointInCityBounds (hd (seg_path street)) bounds 40 \<or>
              \<not> isPointInCityBounds (last (seg_path street)) bounds 40 then False
      else
        (let insideCount = length (filter (\<lambda>p. isPointInCityBounds p bounds 40) (seg_path street))
         in 72 / 100 \<le> real insideCount / real (length (seg_path street))))"

definition filterStreetsToCityBounds :: "StreetSegment list \<Rightarrow> CityBounds \<Rightarrow> StreetSegment list"
  where
  "filterStreetsToCityBounds streets bounds =
     filter (\<lambda>street. isStreetInsideCityBounds street bounds) streets"

section \<open>Coverage planner\<close>

subsection \<open>Candidate selection and the start node\<close>

definition findNearestNodeId :: "(string \<times> GraphNode) list \<Rightarrow> LatLng \<Rightarrow> string option" where
  "findNearestNodeId ns target =
     fst (foldl (\<lambda>(bestId, bestDistance) node.
            (let distance = haversineKm (node_point node) target
             in if lessDistance distance bestDistance then (Some (node_id node), Finite distance)
                else (bestId, bestDistance)))
          (None, Infinity) (map snd ns))"

text \<open>
  The entry distance of a segment with two path points at least, and the stable sort by
  it (\<open>Array.prototype.sort\<close> is stable).
\<close>

definition entryDistance :: "LatLng \<Rightarrow> StreetSegment \<Rightarrow> real" where
  "entryDistance home street =
     min (haversineKm home (hd (seg_path street))) (haversineKm home (last (seg_path street)))"

definition selectCandidateStreets :: "StreetSegment list \<Rightarrow> LatLng \<Rightarrow> real \<Rightarrow> StreetSegment list"
  where
  "selectCandidateStreets streets home targetKm =
     (let normalizedTargetKm = max (8 / 10) targetKm;
          scored = sort_key (entryDistance home)
                     (filter (\<lambda>street. 2 \<le> length (seg_path street)) streets)
      in if length scored = 0 then []
         else
           (let radius = max (22 / 10) (min 32 (normalizedTargetKm * (145 / 100) + 13 / 10));
                maxByRadius = min 4200 (max 320 (mathRound (normalizedTargetKm * 168)));
                byRadius = take (nat maxByRadius)
                             (filter (\<lambda>street. entryDistance home street \<le> radius) scored)
            in if max 120 (mathRound (normalizedTargetKm * 22)) \<le> int (length byRadius)
               then byRadius
               else
                 (let fallbackCount = min (int (length scored))
                                        (max 320 (mathRound (normalizedTargetKm * 72)))
                  in take (nat fallbackCount) scored)))"

subsection \<open>Steps and the planner state\<close>

record RouteTraversalStep =
  step_edgeId :: string
  step_from :: string
  step_to :: string

record PlannedMove =
  move_connectorSteps :: "RouteTraversalStep list"
  move_targetStep :: RouteTraversalStep
  move_additionalDistanceKm :: real
  move_score :: real

record SpurPlan =
  spur_steps :: "RouteTraversalStep list"
  spur_totalDistanceKm :: real
  spur_score :: real

text \<open>
  What one call of \<open>buildEfficientCoverageRoute\<close> fixes before its loops (\<open>PlannerContext\<close>)
  and what its loops and closures change (\<open>PlannerState\<close>).
\<close>

record PlannerContext =
  pc_graph :: StreetGraph
  pc_targetKm :: real
  pc_hardMaxKm :: real
  pc_completedByStreetId :: "(string \<times> bool) list"

record PlannerState =
  ps_routePoints :: "LatLng list"
  ps_coveredStreetIds :: "string list"
  ps_coveredStreetNames :: "string list"
  ps_rewardedStreetIds :: "string list"
  ps_coveredNodes :: "string list"
  ps_traversedEdgeCount :: "(string \<times> nat) list"
  ps_dijkstraCache :: "(string \<times> DijkstraResult) list"
  ps_currentNodeId :: string
  ps_distanceKm :: real

text \<open>\<open>completedByStreetId.get(streetId) ?? false\<close>\<close>

definition isCompleted :: "(string \<times> bool) list \<Rightarrow> string \<Rightarrow> bool" where
  "isCompleted completedByStreetId streetId =
     (case map_of completedByStreetId streetId of None \<Rightarrow> False | Some b \<Rightarrow> b)"

text \<open>\<open>traversedEdgeCount.get(edgeId) ?? 0\<close>\<close>

definition traversals :: "(string \<times> nat) list \<Rightarrow> string \<Rightarrow> nat" where
  "traversals traversedEdgeCount edgeId =
     (case map_of traversedEdgeCount edgeId of None \<Rightarrow> 0 | Some n \<Rightarrow> n)"

fun orientLoop :: "StreetGraph \<Rightarrow> string \<Rightarrow> string list \<Rightarrow> RouteTraversalStep list option" where
  "orientLoop g cursor [] = Some []"
| "orientLoop g cursor (edgeId # rest) =
     (case map_of (edges g) edgeId of
        None \<Rightarrow> None
      | Some edge \<Rightarrow>
          if edge_from edge = cursor then
            map_option ((#) \<lparr>step_edgeId = edgeId, step_from = edge_from edge, step_to = edge_to edge\<rparr>)
              (orientLoop g (edge_to edge) rest)
          else if edge_to edge = cursor then
            map_option ((#) \<lparr>step_edgeId = edgeId, step_from = edge_to edge, step_to = edge_from edge\<rparr>)
              (orientLoop g (edge_from edge) rest)
          else None)"

definition orientPathEdges ::
  "StreetGraph \<Rightarrow> string \<Rightarrow> string list \<Rightarrow> RouteTraversalStep list option" where
  "orientPathEdges g startNodeId edgeIds =
     (if length edgeIds = 0 then Some [] else orientLoop g startNodeId edgeIds)"

text \<open>
  \<open>appendRouteStep\<close> returns the route points after its pushes with the distance and the
  edge, or \<open>None\<close> for \<open>null\<close> (it pushes nothing before it returns \<open>null\<close>).
\<close>

definition appendRouteStep ::
  "StreetGraph \<Rightarrow> RouteTraversalStep \<Rightarrow> LatLng list \<Rightarrow> (LatLng list \<times> real \<times> GraphEdge) option"
  where
  "appendRouteStep g step routePoints =
     (case map_of (edges g) (step_edgeId step) of
        None \<Rightarrow> None
      | Some edge \<Rightarrow>
          (let orientedPath =
                 (if edge_from edge = step_from step \<and> edge_to edge = step_to step
                  then edge_path edge else rev (edge_path edge))
           in if length orientedPath < 2 then None
              else
                (let routePoints1 =
                       (if length routePoints = 0 then routePoints @ [hd orientedPath]
                        else if 18 / 1000 < haversineKm (last routePoints) (hd orientedPath)
                        then routePoints @ [hd orientedPath]
                        else routePoints)
                 in Some (routePoints1 @ tl orientedPath, edge_distanceKm edge, edge))))"

text \<open>
  \<open>applyTraversalStep\<close> returns the state with the route points and the coverage sets
  updated, the next node and the distance of the step; its callers add the distance and
  move the current node.
\<close>

definition applyTraversalStep ::
  "PlannerContext \<Rightarrow> RouteTraversalStep \<Rightarrow> PlannerState \<Rightarrow> (PlannerState \<times> string \<times> real) option"
  where
  "applyTraversalStep ctx step st =
     (case appendRouteStep (pc_graph ctx) step (ps_routePoints st) of
        None \<Rightarrow> None
      | Some (routePoints, distanceKm, edge) \<Rightarrow>
          Some (st\<lparr>ps_routePoints := routePoints,
                   ps_coveredStreetIds := setAdd (edge_streetId edge) (ps_coveredStreetIds st),
                   ps_coveredStreetNames := setAdd (edge_streetName edge) (ps_coveredStreetNames st),
                   ps_coveredNodes := setAdd (step_to step) (setAdd (step_from step) (ps_coveredNodes st)),
                   ps_traversedEdgeCount :=
                     AList.update (edge_id edge)
                       (traversals (ps_traversedEdgeCount st) (edge_id edge) + 1)
                       (ps_traversedEdgeCount st),
                   ps_rewardedStreetIds :=
                     (if \<not> isCompleted (pc_completedByStreetId ctx) (edge_streetId edge)
                      then setAdd (edge_streetId edge) (ps_rewardedStreetIds st)
                      else ps_rewardedStreetIds st)\<rparr>,
                step_to step, distanceKm))"

text \<open>A caller's \<open>distanceKm += applied.distanceKm; currentNodeId = applied.nextNodeId\<close>.\<close>

definition advance :: "PlannerState \<times> string \<times> real \<Rightarrow> PlannerState" where
  "advance applied =
     (case applied of (st, nextNodeId, distanceKm) \<Rightarrow>
        st\<lparr>ps_distanceKm := ps_distanceKm st + distanceKm, ps_currentNodeId := nextNodeId\<rparr>)"

subsection \<open>Dead-end spurs\<close>

text \<open>\<open>!completed && !rewarded\<close> of a street, as the planner asks it of an edge.\<close>

definition isSpent :: "(string \<times> bool) list \<Rightarrow> string list \<Rightarrow> GraphEdge \<Rightarrow> bool" where
  "isSpent completedByStreetId rewardedStreetIds edge =
     (isCompleted completedByStreetId (edge_streetId edge) \<or>
      setHas rewardedStreetIds (edge_streetId edge))"

text \<open>
  The loop of \<open>buildDeadEndForwardChainFromNode\<close>, from the depth \<open>depth\<close> on. An empty
  string is a falsy \<open>nextEdgeId\<close> or \<open>toNodeId\<close>.
\<close>

function forwardChainLoop ::
  "StreetGraph \<Rightarrow> (string \<times> bool) list \<Rightarrow> string list \<Rightarrow> nat \<Rightarrow> nat \<Rightarrow>
   RouteTraversalStep list \<Rightarrow> string \<Rightarrow> string \<Rightarrow> RouteTraversalStep list" where
  "forwardChainLoop g completedByStreetId rewardedStreetIds maxDepth depth forward currentNodeId
     nextEdgeId =
     (if depth < maxDepth \<and> nextEdgeId \<noteq> [] then
        (case map_of (edges g) nextEdgeId of
           None \<Rightarrow> forward
         | Some edge \<Rightarrow>
             if isSpent completedByStreetId rewardedStreetIds edge then
               (if depth = 0 then [] else forward)
             else
               (let toNodeId = (if edge_from edge = currentNodeId then Some (edge_to edge)
                                else if edge_to edge = currentNodeId then Some (edge_from edge)
                                else None)
                in case toNodeId of
                     None \<Rightarrow> forward
                   | Some toNode \<Rightarrow>
                       if toNode = [] then forward
                       else
                         (let forward1 = forward @
                                [\<lparr>step_edgeId = edge_id edge, step_from = currentNodeId,
                                  step_to = toNode\<rparr>];
                              incomingEdgeId = edge_id edge;
                              outgoing = filter (\<lambda>entry. nb_edgeId entry \<noteq> incomingEdgeId)
                                           (neighborsOf g toNode)
                          in if length outgoing \<noteq> 1 then forward1
                             else
                               (case map_of (edges g) (nb_edgeId (hd outgoing)) of
                                  None \<Rightarrow> forward1
                                | Some candidateEdge \<Rightarrow>
                                    if isSpent completedByStreetId rewardedStreetIds candidateEdge
                                    then forward1
                                    else forwardChainLoop g completedByStreetId rewardedStreetIds
                                           maxDepth (depth + 1) forward1 toNode
                                           (nb_edgeId (hd outgoing))))))
      else forward)"
  by pat_completeness auto
termination
  by (relation "measure (\<lambda>(g, c, r, maxDepth, depth, f, n, e). maxDepth - depth)") auto

declare forwardChainLoop.simps [simp del]

definition buildDeadEndForwardChainFromNode ::
  "StreetGraph \<Rightarrow> string \<Rightarrow> string \<Rightarrow> (string \<times> bool) list \<Rightarrow> string list \<Rightarrow>
   RouteTraversalStep list" where
  "buildDeadEndForwardChainFromNode g anchorNodeId firstEdgeId completedByStreetId rewardedStreetIds =
     (let forward = forwardChainLoop g completedByStreetId rewardedStreetIds 12 0 [] anchorNodeId
                      firstEdgeId
      in if length forward = 0 then []
         else
           (let terminalNodeId = step_to (last forward);
                terminalDegree = degreeOf g terminalNodeId
            in if terminalDegree \<noteq> 1 then [] else forward))"

text \<open>The fold over the steps of a forward chain in \<open>findBestDeadEndSpurAtNode\<close>.\<close>

definition chainTotals ::
  "StreetGraph \<Rightarrow> RouteTraversalStep list \<Rightarrow> real \<times> string list \<times> string list" where
  "chainTotals g forward =
     foldl (\<lambda>(oneWayDistanceKm, forwardStreetIds, forwardNodeIds) step.
        (case map_of (edges g) (step_edgeId step) of
           None \<Rightarrow> (oneWayDistanceKm, forwardStreetIds, forwardNodeIds)
         | Some edge \<Rightarrow>
             (oneWayDistanceKm + edge_distanceKm edge,
              setAdd (edge_streetId edge) forwardStreetIds,
              setAdd (step_to step) (setAdd (step_from step) forwardNodeIds))))
       (0, [], []) forward"

definition reverseSteps :: "RouteTraversalStep list \<Rightarrow> RouteTraversalStep list" where
  "reverseSteps forward =
     map (\<lambda>step. \<lparr>step_edgeId = step_edgeId step, step_from = step_to step,
                  step_to = step_from step\<rparr>) (rev forward)"

text \<open>The body of the loop over the neighbors in \<open>findBestDeadEndSpurAtNode\<close>.\<close>

definition spurCandidate ::
  "PlannerContext \<Rightarrow> PlannerState \<Rightarrow> GraphNeighbor \<Rightarrow> SpurPlan option" where
  "spurCandidate ctx st neighbor =
     (let g = pc_graph ctx;
          targetKm = pc_targetKm ctx;
          currentDistanceKm = ps_distanceKm st;
          forward = buildDeadEndForwardChainFromNode g (ps_currentNodeId st) (nb_edgeId neighbor)
                      (pc_completedByStreetId ctx) (ps_rewardedStreetIds st)
      in if length forward = 0 then None
         else
           (case chainTotals g forward of
              (oneWayDistanceKm, forwardStreetIds, forwardNodeIds) \<Rightarrow>
                (let totalDistanceKm = oneWayDistanceKm * 2;
                     nextDistanceKm = currentDistanceKm + totalDistanceKm
                 in if pc_hardMaxKm ctx < nextDistanceKm \<and> targetKm * (5 / 10) \<le> currentDistanceKm
                    then None
                    else
                      (let newStreetGain =
                             length (filter (\<lambda>streetId. \<not> setHas (ps_coveredStreetIds st) streetId)
                                       forwardStreetIds);
                           newNodeGain =
                             length (filter (\<lambda>nodeId. \<not> setHas (ps_coveredNodes st) nodeId)
                                       forwardNodeIds);
                           branchLengthBonus = min (14 / 10) (oneWayDistanceKm * (18 / 10));
                           budgetFit =
                             1 - min (15 / 10)
                                   (\<bar>targetKm - nextDistanceKm\<bar> / max (85 / 100) (targetKm * (55 / 100)));
                           score =
                             (real newStreetGain * (46 / 10) + real newNodeGain * (25 / 10) +
                              branchLengthBonus) / (totalDistanceKm + 7 / 100) +
                             budgetFit * (11 / 10)
                       in Some \<lparr>spur_steps = forward @ reverseSteps forward,
                                spur_totalDistanceKm = totalDistanceKm, spur_score = score\<rparr>))))"

definition findBestDeadEndSpurAtNode :: "PlannerContext \<Rightarrow> PlannerState \<Rightarrow> SpurPlan option" where
  "findBestDeadEndSpurAtNode ctx st =
     foldl (\<lambda>best neighbor.
        (case spurCandidate ctx st neighbor of
           None \<Rightarrow> best
         | Some candidate \<Rightarrow>
             (case best of
                None \<Rightarrow> Some candidate
              | Some b \<Rightarrow> if spur_score b < spur_score candidate then Some candidate else best)))
       None (neighborsOf (pc_graph ctx) (ps_currentNodeId st))"

subsection \<open>Single steps: the immediate branch and the local extension\<close>

text \<open>The body of the loop of \<open>findBestImmediateBranchStep\<close>: a step and its score.\<close>

definition branchCandidate ::
  "PlannerContext \<Rightarrow> PlannerState \<Rightarrow> GraphNeighbor \<Rightarrow> (RouteTraversalStep \<times> real) option" where
  "branchCandidate ctx st neighbor =
     (let g = pc_graph ctx;
          targetKm = pc_targetKm ctx;
          currentDistanceKm = ps_distanceKm st;
          currentDegree = length (neighborsOf g (ps_currentNodeId st))
      in case map_of (edges g) (nb_edgeId neighbor) of
           None \<Rightarrow> None
         | Some edge \<Rightarrow>
             (let completed = isCompleted (pc_completedByStreetId ctx) (edge_streetId edge);
                  isNewReward = (\<not> completed \<and>
                                 \<not> setHas (ps_rewardedStreetIds st) (edge_streetId edge))
              in if \<not> isNewReward then None
                 else if 0 < traversals (ps_traversedEdgeCount st) (edge_id edge) then None
                 else
                   (let neighborDegree = degreeOf g (nb_neighbor neighbor)
                    in if 2 < neighborDegree then None
                       else if 12 / 10 < edge_distanceKm edge then None
                       else
                         (let nextDistanceKm = currentDistanceKm + edge_distanceKm edge
                          in if pc_hardMaxKm ctx < nextDistanceKm \<and>
                                targetKm * (52 / 100) \<le> currentDistanceKm then None
                             else
                               (let nodeGain = (if setHas (ps_coveredNodes st) (nb_neighbor neighbor)
                                                then 0 else 1 :: real);
                                    culdesacBonus = (if neighborDegree = 1 then 4 else 225 / 100 :: real);
                                    branchExitBonus = (if 3 \<le> currentDegree then 145 / 100
                                                       else 35 / 100 :: real);
                                    shortEdgeBonus =
                                      max 0 (95 / 100 - edge_distanceKm edge) * (125 / 100);
                                    budgetFit =
                                      1 - min (125 / 100)
                                            (\<bar>targetKm - nextDistanceKm\<bar> /
                                             max (8 / 10) (targetKm * (55 / 100)));
                                    score = culdesacBonus + branchExitBonus + shortEdgeBonus +
                                            nodeGain * (12 / 10) + budgetFit
                                in Some (\<lparr>step_edgeId = edge_id edge,
                                           step_from = ps_currentNodeId st,
                                           step_to = nb_neighbor neighbor\<rparr>, score))))))"

text \<open>The loop that keeps the best candidate, the first one on a tie.\<close>

definition bestStep ::
  "('a \<Rightarrow> (RouteTraversalStep \<times> real) option) \<Rightarrow> 'a list \<Rightarrow> RouteTraversalStep option" where
  "bestStep candidate xs =
     map_option fst
       (foldl (\<lambda>best x.
          (case candidate x of
             None \<Rightarrow> best
           | Some (step, score) \<Rightarrow>
               (case best of
                  None \<Rightarrow> Some (step, score)
                | Some b \<Rightarrow> if snd b < score then Some (step, score) else best)))
        None xs)"

definition findBestImmediateBranchStep ::
  "PlannerContext \<Rightarrow> PlannerState \<Rightarrow> RouteTraversalStep option" where
  "findBestImmediateBranchStep ctx st =
     bestStep (branchCandidate ctx st) (neighborsOf (pc_graph ctx) (ps_currentNodeId st))"

definition extensionCandidate ::
  "PlannerContext \<Rightarrow> PlannerState \<Rightarrow> GraphNeighbor \<Rightarrow> (RouteTraversalStep \<times> real) option" where
  "extensionCandidate ctx st neighbor =
     (let g = pc_graph ctx;
          targetKm = pc_targetKm ctx;
          currentDistanceKm = ps_distanceKm st
      in case map_of (edges g) (nb_edgeId neighbor) of
           None \<Rightarrow> None
         | Some edge \<Rightarrow>
             (let nextDistanceKm = currentDistanceKm + edge_distanceKm edge
              in if pc_hardMaxKm ctx < nextDistanceKm \<and> targetKm * (55 / 100) \<le> currentDistanceKm
                 then None
                 else
                   (let repeatCount = traversals (ps_traversedEdgeCount st) (edge_id edge);
                        completed = isCompleted (pc_completedByStreetId ctx) (edge_streetId edge);
                        isNewReward = (\<not> completed \<and>
                                       \<not> setHas (ps_rewardedStreetIds st) (edge_streetId edge));
                        nodeGain = (if setHas (ps_coveredNodes st) (nb_neighbor neighbor)
                                    then 0 else 1 :: real);
                        neighborDegree = degreeOf g (nb_neighbor neighbor);
                        culdesacBonus = (if neighborDegree = 1 then 31 / 10
                                         else if neighborDegree = 2 then 8 / 10 else 0 :: real);
                        score = (if isNewReward then 27 / 10 else 55 / 100) + nodeGain * 1 +
                                culdesacBonus - real repeatCount * (92 / 100) -
                                (if completed then 3 / 10 else 0) -
                                \<bar>targetKm - nextDistanceKm\<bar> * (12 / 100)
                    in Some (\<lparr>step_edgeId = edge_id edge, step_from = ps_currentNodeId st,
                               step_to = nb_neighbor neighbor\<rparr>, score))))"

definition findBestLocalExtension :: "PlannerContext \<Rightarrow> PlannerState \<Rightarrow> RouteTraversalStep option"
  where
  "findBestLocalExtension ctx st =
     bestStep (extensionCandidate ctx st) (neighborsOf (pc_graph ctx) (ps_currentNodeId st))"

subsection \<open>The global coverage move\<close>

text \<open>A loop whose body may not return: it stops with \<open>None\<close> as soon as the body does.\<close>

fun foldlOption :: "('b \<Rightarrow> 'a \<Rightarrow> 'b option) \<Rightarrow> 'b \<Rightarrow> 'a list \<Rightarrow> 'b option" where
  "foldlOption f acc [] = Some acc"
| "foldlOption f acc (x # xs) =
     (case f acc x of None \<Rightarrow> None | Some acc' \<Rightarrow> foldlOption f acc' xs)"

text \<open>\<open>Number.isFinite\<close> on a value of the distance table.\<close>

fun isFiniteDistance :: "Distance \<Rightarrow> bool" where
  "isFiniteDistance (Finite x) = True"
| "isFiniteDistance Infinity = False"

text \<open>\<open>toFrom <= toTo\<close> on values of the distance table.\<close>

fun distanceLe :: "Distance \<Rightarrow> Distance \<Rightarrow> bool" where
  "distanceLe (Finite x) (Finite y) = (x \<le> y)"
| "distanceLe (Finite x) Infinity = True"
| "distanceLe Infinity (Finite y) = False"
| "distanceLe Infinity Infinity = True"

definition pendingBranchEdgeIds :: "PlannerContext \<Rightarrow> PlannerState \<Rightarrow> string list" where
  "pendingBranchEdgeIds ctx st =
     foldl (\<lambda>s edgeId. setAdd edgeId s) []
       (map nb_edgeId
          (filter (\<lambda>entry.
             (case map_of (edges (pc_graph ctx)) (nb_edgeId entry) of
                None \<Rightarrow> False
              | Some edge \<Rightarrow>
                  if isCompleted (pc_completedByStreetId ctx) (edge_streetId edge) then False
                  else if setHas (ps_rewardedStreetIds st) (edge_streetId edge) then False
                  else degreeOf (pc_graph ctx) (nb_neighbor entry) \<le> 2))
             (neighborsOf (pc_graph ctx) (ps_currentNodeId st))))"

definition connectorRepeatPenaltyOf :: "StreetGraph \<Rightarrow> (string \<times> nat) list \<Rightarrow> string list \<Rightarrow> real"
  where
  "connectorRepeatPenaltyOf g traversedEdgeCount connectorEdgeIds =
     foldl (\<lambda>penalty connectorEdgeId.
        (case map_of (edges g) connectorEdgeId of
           None \<Rightarrow> penalty
         | Some connectorEdge \<Rightarrow>
             (let repeatCount = traversals traversedEdgeCount connectorEdgeId
              in if 0 < repeatCount
                 then penalty + edge_distanceKm connectorEdge * min (24 / 10) (real repeatCount)
                 else penalty)))
       0 connectorEdgeIds"

text \<open>
  The body of the loop over the edges in \<open>findBestCoverageMove\<close>: the outer \<open>None\<close> is a
  path reconstruction that does not return, the inner one a \<open>continue\<close>.
\<close>

definition coverageCandidate ::
  "PlannerContext \<Rightarrow> PlannerState \<Rightarrow> DijkstraResult \<Rightarrow> string list \<Rightarrow> GraphEdge \<Rightarrow>
   PlannedMove option option" where
  "coverageCandidate ctx st fromCurrent pending edge =
     (let g = pc_graph ctx;
          targetKm = pc_targetKm ctx;
          currentDistanceKm = ps_distanceKm st;
          currentNodeId = ps_currentNodeId st
      in if isCompleted (pc_completedByStreetId ctx) (edge_streetId edge) then Some None
         else if setHas (ps_rewardedStreetIds st) (edge_streetId edge) then Some None
         else
           (let toFrom = distanceOf (dist fromCurrent) (edge_from edge);
                toTo = distanceOf (dist fromCurrent) (edge_to edge)
            in if \<not> isFiniteDistance toFrom \<and> \<not> isFiniteDistance toTo then Some None
               else
                 (let approachFrom = distanceLe toFrom toTo;
                      connectorNode = (if approachFrom then edge_from edge else edge_to edge)
                  in case (if approachFrom then toFrom else toTo) of
                       Infinity \<Rightarrow> Some None
                     | Finite connectorDistanceKm \<Rightarrow>
                        (let targetStep =
                               (if approachFrom
                                then \<lparr>step_edgeId = edge_id edge, step_from = edge_from edge,
                                      step_to = edge_to edge\<rparr>
                                else \<lparr>step_edgeId = edge_id edge, step_from = edge_to edge,
                                      step_to = edge_from edge\<rparr>);
                             additionalDistanceKm = connectorDistanceKm + edge_distanceKm edge;
                             nextDistanceKm = currentDistanceKm + additionalDistanceKm
                         in if pc_hardMaxKm ctx < nextDistanceKm \<and>
                               targetKm * (45 / 100) \<le> currentDistanceKm then Some None
                            else
                              (case reconstructPathEdges fromCurrent currentNodeId connectorNode of
                                 None \<Rightarrow> None
                               | Some connectorEdgeIds \<Rightarrow>
                                  (case orientPathEdges g currentNodeId connectorEdgeIds of
                                     None \<Rightarrow> Some None
                                   | Some connectorSteps \<Rightarrow>
                                      (let connectorRepeatPenalty =
                                             connectorRepeatPenaltyOf g (ps_traversedEdgeCount st)
                                               connectorEdgeIds;
                                           firstTravelEdgeId =
                                             (case connectorSteps of
                                                [] \<Rightarrow> step_edgeId targetStep
                                              | s # _ \<Rightarrow> step_edgeId s);
                                           skipNearbyBranchPenalty =
                                             (if 0 < length pending \<and>
                                                 \<not> setHas pending firstTravelEdgeId \<and>
                                                 currentDistanceKm \<le> targetKm * (95 / 100)
                                              then min (36 / 10) (real (length pending) * (118 / 100))
                                              else 0);
                                           remainingKm = max 0 (targetKm - currentDistanceKm);
                                           newStreetGain =
                                             (if setHas (ps_coveredStreetIds st) (edge_streetId edge)
                                              then 0 else 1 :: real);
                                           newNodeGain =
                                             (if setHas (ps_coveredNodes st) (step_from targetStep)
                                              then 0 else 1 :: real) +
                                             (if setHas (ps_coveredNodes st) (step_to targetStep)
                                              then 0 else 1);
                                           fromDegree = degreeOf g (edge_from edge);
                                           toDegree = degreeOf g (edge_to edge);
                                           leafBonus = (if fromDegree = 1 \<or> toDegree = 1
                                                        then 175 / 100 else 0 :: real);
                                           branchTailBonus = (if fromDegree \<le> 2 \<or> toDegree \<le> 2
                                                              then 35 / 100 else 0 :: real);
                                           proximityBonus =
                                             max 0 (135 / 100 - connectorDistanceKm) * (7 / 10);
                                           usefulDistanceBonus =
                                             min (15 / 10) (edge_distanceKm edge * (135 / 100));
                                           budgetFit =
                                             1 - min (14 / 10)
                                                   (\<bar>remainingKm - additionalDistanceKm\<bar> /
                                                    max (7 / 10) (targetKm * (5 / 10)));
                                           overshootPenalty =
                                             (if targetKm * (108 / 100) < nextDistanceKm
                                              then (nextDistanceKm - targetKm * (108 / 100)) * (19 / 10)
                                              else 0);
                                           score =
                                             (newStreetGain * (38 / 10) + newNodeGain * 2 + leafBonus +
                                              branchTailBonus + proximityBonus + usefulDistanceBonus) /
                                             (additionalDistanceKm + 8 / 100) +
                                             budgetFit * (145 / 100) - overshootPenalty -
                                             connectorRepeatPenalty * (21 / 10) -
                                             skipNearbyBranchPenalty
                                       in Some (Some
                                            \<lparr>move_connectorSteps = connectorSteps,
                                             move_targetStep = targetStep,
                                             move_additionalDistanceKm = additionalDistanceKm,
                                             move_score = score\<rparr>))))))))"

text \<open>
  \<open>findBestCoverageMove\<close> returns the move (\<open>None\<close> for \<open>null\<close>) and the Dijkstra cache;
  the outer \<open>None\<close> is a call that does not return.
\<close>

definition findBestCoverageMove ::
  "PlannerContext \<Rightarrow> PlannerState \<Rightarrow> (PlannedMove option \<times> (string \<times> DijkstraResult) list) option"
  where
  "findBestCoverageMove ctx st =
     (case getDijkstraCached (ps_dijkstraCache st) (pc_graph ctx) (ps_currentNodeId st) of
        None \<Rightarrow> None
      | Some (fromCurrent, cache) \<Rightarrow>
          map_option (\<lambda>best. (best, cache))
            (foldlOption (\<lambda>best edge.
               (case coverageCandidate ctx st fromCurrent (pendingBranchEdgeIds ctx st) edge of
                  None \<Rightarrow> None
                | Some None \<Rightarrow> Some best
                | Some (Some candidate) \<Rightarrow>
                    (case best of
                       None \<Rightarrow> Some (Some candidate)
                     | Some b \<Rightarrow>
                         if move_score b < move_score candidate then Some (Some candidate)
                         else Some best)))
             None (map snd (edges (pc_graph ctx)))))"

subsection \<open>The sweeps and the main loop\<close>

text \<open>
  The loop over the steps of a spur: the state after the steps that were applied, and
  \<open>failedSpur\<close>.
\<close>

fun applySpurSteps ::
  "PlannerContext \<Rightarrow> RouteTraversalStep list \<Rightarrow> PlannerState \<Rightarrow> PlannerState \<times> bool" where
  "applySpurSteps ctx [] st = (st, False)"
| "applySpurSteps ctx (spurStep # rest) st =
     (case applyTraversalStep ctx spurStep st of
        None \<Rightarrow> (st, True)
      | Some applied \<Rightarrow> applySpurSteps ctx rest (advance applied))"

text \<open>
  The closure \<open>runDeadEndSpurSweeps\<close>. Its loop runs while \<open>spurSweeps < maxSweeps\<close>; the
  first argument of the model is the number of sweeps that are left,
  \<open>maxSweeps - spurSweeps\<close>.
\<close>

fun runDeadEndSpurSweeps :: "PlannerContext \<Rightarrow> nat \<Rightarrow> PlannerState \<Rightarrow> PlannerState" where
  "runDeadEndSpurSweeps ctx 0 st = st"
| "runDeadEndSpurSweeps ctx (Suc sweepsLeft) st =
     (if \<not> ps_distanceKm st < pc_hardMaxKm ctx then st
      else
        (let anchorNodeId = ps_currentNodeId st
         in case findBestDeadEndSpurAtNode ctx st of
              None \<Rightarrow> st
            | Some spur \<Rightarrow>
                if pc_hardMaxKm ctx < ps_distanceKm st + spur_totalDistanceKm spur \<and>
                   pc_targetKm ctx * (48 / 100) \<le> ps_distanceKm st then st
                else
                  (case applySpurSteps ctx (spur_steps spur) st of
                     (st1, failedSpur) \<Rightarrow>
                       if failedSpur \<or> ps_currentNodeId st1 \<noteq> anchorNodeId then st1
                       else if pc_hardMaxKm ctx \<le> ps_distanceKm st1 \<or>
                               pc_targetKm ctx * (102 / 100) \<le> ps_distanceKm st1 then st1
                       else runDeadEndSpurSweeps ctx sweepsLeft st1)))"

text \<open>The closure \<open>runImmediateBranchSweep\<close>, with the number of steps that are left.\<close>

fun runImmediateBranchSweep :: "PlannerContext \<Rightarrow> nat \<Rightarrow> PlannerState \<Rightarrow> PlannerState" where
  "runImmediateBranchSweep ctx 0 st = st"
| "runImmediateBranchSweep ctx (Suc stepsLeft) st =
     (if \<not> ps_distanceKm st < pc_hardMaxKm ctx then st
      else
        (case findBestImmediateBranchStep ctx st of
           None \<Rightarrow> st
         | Some branchStep \<Rightarrow>
             (case applyTraversalStep ctx branchStep st of
                None \<Rightarrow> st
              | Some applied \<Rightarrow>
                  (let st1 = runDeadEndSpurSweeps ctx 2 (advance applied)
                   in if pc_hardMaxKm ctx \<le> ps_distanceKm st1 \<or>
                         pc_targetKm ctx * (103 / 100) \<le> ps_distanceKm st1 then st1
                      else runImmediateBranchSweep ctx stepsLeft st1))))"

text \<open>The loop over the connector steps of a move: the state and \<open>aborted\<close>.\<close>

fun walkConnectorSteps ::
  "PlannerContext \<Rightarrow> RouteTraversalStep list \<Rightarrow> PlannerState \<Rightarrow> PlannerState \<times> bool" where
  "walkConnectorSteps ctx [] st = (st, False)"
| "walkConnectorSteps ctx (connectorStep # rest) st =
     (case map_of (edges (pc_graph ctx)) (step_edgeId connectorStep) of
        None \<Rightarrow> (st, True)
      | Some connectorEdge \<Rightarrow>
          if pc_hardMaxKm ctx < ps_distanceKm st + edge_distanceKm connectorEdge \<and>
             pc_targetKm ctx * (55 / 100) \<le> ps_distanceKm st then (st, True)
          else
            (case applyTraversalStep ctx connectorStep st of
               None \<Rightarrow> (st, True)
             | Some applied \<Rightarrow>
                 (let st1 = runImmediateBranchSweep ctx 2
                              (runDeadEndSpurSweeps ctx 3 (advance applied))
                  in if pc_hardMaxKm ctx \<le> ps_distanceKm st1 \<or>
                        pc_targetKm ctx * (104 / 100) \<le> ps_distanceKm st1 then (st1, False)
                     else walkConnectorSteps ctx rest st1)))"

text \<open>
  The main loop, \<open>while (distanceKm < hardMaxKm && iterations < maxIterations)\<close>, with the
  number of iterations that are left. \<open>None\<close>: a shortest-path call does not return.
\<close>

fun mainLoop :: "PlannerContext \<Rightarrow> nat \<Rightarrow> PlannerState \<Rightarrow> PlannerState option" where
  "mainLoop ctx 0 st = Some st"
| "mainLoop ctx (Suc iterationsLeft) st =
     (if \<not> ps_distanceKm st < pc_hardMaxKm ctx then Some st
      else
        (let st1 = runImmediateBranchSweep ctx 6 (runDeadEndSpurSweeps ctx 5 st)
         in if pc_hardMaxKm ctx \<le> ps_distanceKm st1 then Some st1
            else
              (case findBestCoverageMove ctx st1 of
                 None \<Rightarrow> None
               | Some (None, cache) \<Rightarrow>
                   (let st2 = st1\<lparr>ps_dijkstraCache := cache\<rparr>
                    in if pc_targetKm ctx * (72 / 100) \<le> ps_distanceKm st2 \<and>
                          0 < length (ps_rewardedStreetIds st2) then Some st2
                       else
                         (case findBestLocalExtension ctx st2 of
                            None \<Rightarrow> Some st2
                          | Some localStep \<Rightarrow>
                              (case applyTraversalStep ctx localStep st2 of
                                 None \<Rightarrow> Some st2
                               | Some localAppend \<Rightarrow>
                                   mainLoop ctx iterationsLeft (advance localAppend))))
               | Some (Some move, cache) \<Rightarrow>
                   (case walkConnectorSteps ctx (move_connectorSteps move)
                           (st1\<lparr>ps_dijkstraCache := cache\<rparr>) of
                      (st2, aborted) \<Rightarrow>
                        if aborted then Some st2
                        else
                          (case map_of (edges (pc_graph ctx)) (step_edgeId (move_targetStep move)) of
                             None \<Rightarrow> Some st2
                           | Some targetEdge \<Rightarrow>
                               if pc_hardMaxKm ctx < ps_distanceKm st2 + edge_distanceKm targetEdge \<and>
                                  pc_targetKm ctx * (55 / 100) \<le> ps_distanceKm st2 then Some st2
                               else
                                 (case applyTraversalStep ctx (move_targetStep move) st2 of
                                    None \<Rightarrow> Some st2
                                  | Some targetAppend \<Rightarrow>
                                      (let st3 = runImmediateBranchSweep ctx 2
                                                   (runDeadEndSpurSweeps ctx 3 (advance targetAppend))
                                       in if pc_targetKm ctx * (103 / 100) \<le> ps_distanceKm st3 \<and>
                                             0 < length (ps_rewardedStreetIds st3) then Some st3
                                          else mainLoop ctx iterationsLeft st3)))))))"

subsection \<open>The planner\<close>

record SuggestedRoute =
  route_id :: string
  route_name :: string
  route_points :: "LatLng list"
  route_streetIds :: "string list"
  route_streetNames :: "string list"
  route_distanceKm :: real
  route_strategy :: string
  route_nodeIdsCovered :: "string list"
  route_nodePoints :: "LatLng list"
  route_availableNodes :: "RouteNode list"

definition hardMaxKmOf :: "real \<Rightarrow> real" where
  "hardMaxKmOf normalizedTargetKm = max (12 / 10) (normalizedTargetKm * (11 / 10) + 35 / 100)"

definition maxIterationsOf :: "real \<Rightarrow> nat" where
  "maxIterationsOf normalizedTargetKm = nat (max 140 (mathRound (normalizedTargetKm * 95)))"

definition initialState :: "string \<Rightarrow> PlannerState" where
  "initialState startNodeId =
     \<lparr>ps_routePoints = [], ps_coveredStreetIds = [], ps_coveredStreetNames = [],
      ps_rewardedStreetIds = [], ps_coveredNodes = [startNodeId], ps_traversedEdgeCount = [],
      ps_dijkstraCache = [], ps_currentNodeId = startNodeId, ps_distanceKm = 0\<rparr>"

text \<open>The return statement of the planner, from the final state.\<close>

definition routeOfState :: "string \<Rightarrow> StreetGraph \<Rightarrow> PlannerState \<Rightarrow> SuggestedRoute" where
  "routeOfState uuid g st =
     (let availableNodes = map (\<lambda>node. \<lparr>rn_id = node_id node, rn_point = node_point node\<rparr>)
                             (map snd (nodes g));
          coveredNodeIds = coveredNodeIdsForPath (ps_routePoints st) availableNodes;
          coveredNodePoints =
            List.map_filter (\<lambda>i. map_option node_point (map_of (nodes g) i)) coveredNodeIds;
          miles = ps_distanceKm st * (621371 / 1000000)
      in \<lparr>route_id = ''route-'' @ uuid,
          route_name = ''Efficient Coverage Plan ('' @ toFixed 1 miles @ '' mi)'',
          route_points = ps_routePoints st,
          route_streetIds = ps_coveredStreetIds st,
          route_streetNames = ps_coveredStreetNames st,
          route_distanceKm = ps_distanceKm st,
          route_strategy = ''efficient_coverage'',
          route_nodeIdsCovered = coveredNodeIds,
          route_nodePoints = coveredNodePoints,
          route_availableNodes = availableNodes\<rparr>)"

text \<open>
  \<open>buildEfficientCoverageRoute\<close>. The first argument is the string that
  \<open>crypto.randomUUID()\<close> returns in this call. The outer \<open>None\<close> is a call that does not
  return, \<open>Some None\<close> is \<open>null\<close>.
\<close>

definition buildEfficientCoverageRoute ::
  "string \<Rightarrow> StreetSegment list \<Rightarrow> LatLng \<Rightarrow> real \<Rightarrow> CityBounds option \<Rightarrow>
   SuggestedRoute option option" where
  "buildEfficientCoverageRoute uuid streets home targetKm cityBounds =
     (let normalizedTargetKm = max (8 / 10) targetKm;
          inCityStreets = (case cityBounds of
                             Some bounds \<Rightarrow> filterStreetsToCityBounds streets bounds
                           | None \<Rightarrow> streets);
          candidates = selectCandidateStreets inCityStreets home normalizedTargetKm
      in if length candidates = 0 then Some None
         else
           (let g = buildStreetGraph candidates
            in if length (edges g) = 0 \<or> length (nodes g) = 0 then Some None
               else
                 (case findNearestNodeId (nodes g) home of
                    None \<Rightarrow> Some None
                  | Some startNodeId \<Rightarrow>
                      if startNodeId = [] then Some None
                      else
                        (let completedByStreetId =
                               mapOfEntries (map (\<lambda>street. (seg_id street, seg_completed street))
                                               candidates);
                             unfinishedCount =
                               length (filter (\<lambda>street. \<not> seg_completed street) candidates)
                         in if unfinishedCount = 0 then Some None
                            else
                              (let hardMaxKm = hardMaxKmOf normalizedTargetKm;
                                   maxIterations = maxIterationsOf normalizedTargetKm;
                                   ctx = \<lparr>pc_graph = g, pc_targetKm = normalizedTargetKm,
                                          pc_hardMaxKm = hardMaxKm,
                                          pc_completedByStreetId = completedByStreetId\<rparr>
                               in case mainLoop ctx maxIterations (initialState startNodeId) of
                                    None \<Rightarrow> None
                                  | Some st \<Rightarrow>
                                      if length (ps_routePoints st) < 2 \<or>
                                         length (ps_coveredStreetIds st) = 0 then Some None
                                      else Some (Some (routeOfState uuid g st)))))))"


subsection \<open>Example points\<close>

text \<open>
  The point on the prime meridian that lies \<open>k\<close> kilometres north of the equator, on
  the sphere of radius 6371 km that \<open>haversineKm\<close> measures.
\<close>

definition kmNorth :: "real \<Rightarrow> LatLng" where
  "kmNorth k = \<lparr>lat = k * (180 / (6371 * pi)), lon = 0\<rparr>"

text \<open>The covered street names are empty exactly when the covered street ids are.\<close>

definition namesFollowIds :: "PlannerState \<Rightarrow> bool" where
  "namesFollowIds st = ((ps_coveredStreetIds st = []) = (ps_coveredStreetNames st = []))"

subsection \<open>Example: one dead-end street\<close>

text \<open>
  A street of one kilometre from the node \<open>A\<close> at the home location to the dead end
  \<open>B\<close>, the graph that \<open>buildStreetGraph\<close> makes of it, and the state in which the
  planner ends after it has walked the street out and back as a spur.
\<close>

definition longLane :: StreetSegment where
  "longLane =
     \<lparr>seg_id = ''lane'', seg_name = ''Long Lane'', seg_path = [kmNorth 0, kmNorth 1],
      seg_startNodeId = Some ''A'', seg_endNodeId = Some ''B'',
      seg_completed = False, seg_source = Manual\<rparr>"

definition laneGraph :: StreetGraph where
  "laneGraph =
     \<lparr>nodes = [(''A'', \<lparr>node_id = ''A'', node_point = kmNorth 0, node_edgeIds = [''lane'']\<rparr>),
               (''B'', \<lparr>node_id = ''B'', node_point = kmNorth 1, node_edgeIds = [''lane'']\<rparr>)],
      edges = [(''lane'', \<lparr>edge_id = ''lane'', edge_streetId = ''lane'',
                 edge_streetName = ''Long Lane'', edge_from = ''A'', edge_to = ''B'',
                 edge_path = [kmNorth 0, kmNorth 1], edge_distanceKm = 1\<rparr>)],
      adjacency = [(''A'', [\<lparr>nb_edgeId = ''lane'', nb_neighbor = ''B''\<rparr>]),
                   (''B'', [\<lparr>nb_edgeId = ''lane'', nb_neighbor = ''A''\<rparr>])]\<rparr>"

definition laneFinalState :: PlannerState where
  "laneFinalState =
     \<lparr>ps_routePoints = [kmNorth 0, kmNorth 1, kmNorth 0], ps_coveredStreetIds = [''lane''],
      ps_coveredStreetNames = [''Long Lane''], ps_rewardedStreetIds = [''lane''],
      ps_coveredNodes = [''A'', ''B''], ps_traversedEdgeCount = [(''lane'', 2)],
      ps_dijkstraCache = [], ps_currentNodeId = ''A'', ps_distanceKm = 2\<rparr>"








subsection \<open>Example: two completed streets on the way to an open one\<close>

text \<open>
  Four nodes in a row, going north from the home location \<open>S\<close>: First Street (0.9 km,
  completed) from \<open>S\<close> to \<open>X\<close>, Second Street (0.1 km, completed) from \<open>X\<close> to \<open>Z\<close>, and
  Third Street (0.1 km, not completed) from \<open>Z\<close> to the dead end \<open>W\<close>.
\<close>

definition rowStreet :: "string \<Rightarrow> string \<Rightarrow> real \<Rightarrow> string \<Rightarrow> real \<Rightarrow> string \<Rightarrow> bool \<Rightarrow> StreetSegment"
  where
  "rowStreet i nm a an b bn completed =
     \<lparr>seg_id = i, seg_name = nm, seg_path = [kmNorth a, kmNorth b],
      seg_startNodeId = Some an, seg_endNodeId = Some bn,
      seg_completed = completed, seg_source = Osm\<rparr>"

definition rowStreets :: "StreetSegment list" where
  "rowStreets =
     [rowStreet ''first'' ''First Street'' 0 ''S'' (9 / 10) ''X'' True,
      rowStreet ''second'' ''Second Street'' (9 / 10) ''X'' 1 ''Z'' True,
      rowStreet ''third'' ''Third Street'' 1 ''Z'' (11 / 10) ''W'' False]"

definition rowEdge :: "string \<Rightarrow> string \<Rightarrow> real \<Rightarrow> string \<Rightarrow> real \<Rightarrow> string \<Rightarrow> real \<Rightarrow> GraphEdge"
  where
  "rowEdge i nm a an b bn d =
     \<lparr>edge_id = i, edge_streetId = i, edge_streetName = nm, edge_from = an, edge_to = bn,
      edge_path = [kmNorth a, kmNorth b], edge_distanceKm = d\<rparr>"

definition rowGraph :: StreetGraph where
  "rowGraph =
     \<lparr>nodes =
        [(''S'', \<lparr>node_id = ''S'', node_point = kmNorth 0, node_edgeIds = [''first'']\<rparr>),
         (''X'', \<lparr>node_id = ''X'', node_point = kmNorth (9 / 10),
                  node_edgeIds = [''first'', ''second'']\<rparr>),
         (''Z'', \<lparr>node_id = ''Z'', node_point = kmNorth 1, node_edgeIds = [''second'', ''third'']\<rparr>),
         (''W'', \<lparr>node_id = ''W'', node_point = kmNorth (11 / 10), node_edgeIds = [''third'']\<rparr>)],
      edges =
        [(''first'', rowEdge ''first'' ''First Street'' 0 ''S'' (9 / 10) ''X'' (9 / 10)),
         (''second'', rowEdge ''second'' ''Second Street'' (9 / 10) ''X'' 1 ''Z'' (1 / 10)),
         (''third'', rowEdge ''third'' ''Third Street'' 1 ''Z'' (11 / 10) ''W'' (1 / 10))],
      adjacency =
        [(''S'', [\<lparr>nb_edgeId = ''first'', nb_neighbor = ''X''\<rparr>]),
         (''X'', [\<lparr>nb_edgeId = ''first'', nb_neighbor = ''S''\<rparr>,
                  \<lparr>nb_edgeId = ''second'', nb_neighbor = ''Z''\<rparr>]),
         (''Z'', [\<lparr>nb_edgeId = ''second'', nb_neighbor = ''X''\<rparr>,
                  \<lparr>nb_edgeId = ''third'', nb_neighbor = ''W''\<rparr>]),
         (''W'', [\<lparr>nb_edgeId = ''third'', nb_neighbor = ''Z''\<rparr>])]\<rparr>"

definition rowFromS :: DijkstraResult where
  "rowFromS =
     \<lparr>dist = [(''S'', Finite 0), (''X'', Finite (9 / 10)), (''Z'', Finite 1),
              (''W'', Finite (11 / 10))],
      prev = [(''X'', \<lparr>prev_nodeId = ''S'', prev_edgeId = ''first''\<rparr>),
              (''Z'', \<lparr>prev_nodeId = ''X'', prev_edgeId = ''second''\<rparr>),
              (''W'', \<lparr>prev_nodeId = ''Z'', prev_edgeId = ''third''\<rparr>)]\<rparr>"

definition rowContext :: PlannerContext where
  "rowContext =
     \<lparr>pc_graph = rowGraph, pc_targetKm = 4 / 5, pc_hardMaxKm = 123 / 100,
      pc_completedByStreetId = [(''first'', True), (''second'', True), (''third'', False)]\<rparr>"

definition rowFinalState :: PlannerState where
  "rowFinalState =
     \<lparr>ps_routePoints = [kmNorth 0, kmNorth (9 / 10), kmNorth 1, kmNorth (11 / 10)],
      ps_coveredStreetIds = [''first'', ''third''],
      ps_coveredStreetNames = [''First Street'', ''Third Street''],
      ps_rewardedStreetIds = [''third''],
      ps_coveredNodes = [''S'', ''X'', ''Z'', ''W''],
      ps_traversedEdgeCount = [(''first'', 1), (''third'', 1)],
      ps_dijkstraCache = [(''S'', rowFromS)], ps_currentNodeId = ''W'', ps_distanceKm = 1\<rparr>"

section \<open>Properties\<close>

subsection \<open>Street names\<close>

text \<open>
  C8 (normalizeStreetName is idempotent). The function trims before it removes the
  periods, so a period that is separated from the rest of the name by white space at
  either end leaves that white space in the result: \<open>"Elm St ."\<close> is normalized to
  \<open>"elm st "\<close>, whose own normal form is \<open>"elm st"\<close>. The theorem evaluates the function at
  that input.
\<close>

theorem normalizeStreetName_not_fixed_point:
  "normalizeStreetName ''Elm St .'' = ''elm st '' \<and>
   normalizeStreetName (normalizeStreetName ''Elm St .'') = ''elm st'' \<and>
   normalizeStreetName (normalizeStreetName ''Elm St .'') \<noteq> normalizeStreetName ''Elm St .''"
  by code_simp

subsection \<open>The street graph\<close>

lemma map_of_mapModify:
  "map_of (mapModify k f m) = (case map_of m k of None \<Rightarrow> map_of m | Some v \<Rightarrow> (map_of m)(k \<mapsto> f v))"
  by (simp add: mapModify_def update_conv' split: option.splits)

lemma neighborsOf_addStreet:
  assumes "2 \<le> length (seg_path street)"
    and "nodeIdForStreetEndpoint street Start = Some a"
    and "nodeIdForStreetEndpoint street End = Some b"
  shows "neighborsOf (addStreet g street) n =
           neighborsOf g n
           @ (if n = a then [\<lparr>nb_edgeId = seg_id street, nb_neighbor = b\<rparr>] else [])
           @ (if n = b then [\<lparr>nb_edgeId = seg_id street, nb_neighbor = a\<rparr>] else [])"
  using assms
  by (auto simp: addStreet_def neighborsOf_def Let_def mapHas_def map_of_mapModify update_conv'
      split: option.splits)

lemma nodeId_defined:
  "2 \<le> length (seg_path street) \<Longrightarrow> \<exists>n. nodeIdForStreetEndpoint street e = Some n"
  by (cases "seg_path street") (auto simp: nodeIdForStreetEndpoint_def split: Endpoint.splits option.splits)

lemma edges_addStreet:
  assumes "2 \<le> length (seg_path street)"
    and "nodeIdForStreetEndpoint street Start = Some a"
    and "nodeIdForStreetEndpoint street End = Some b"
  shows "map_of (edges (addStreet g street)) =
          (map_of (edges g))(seg_id street \<mapsto>
             \<lparr>edge_id = seg_id street, edge_streetId = seg_id street,
                          edge_streetName = seg_name street, edge_from = a, edge_to = b,
                          edge_path = seg_path street,
                          edge_distanceKm = polylineDistanceKm (seg_path street)\<rparr>)"
  using assms by (simp add: addStreet_def Let_def update_conv')

lemma addStreet_short: "length (seg_path street) < 2 \<Longrightarrow> addStreet g street = g"
  by (simp add: addStreet_def)

lemma adjacencyMatchesEdges_addStreet:
  assumes "adjacencyMatchesEdges g"
    and "2 \<le> length (seg_path street) \<longrightarrow> map_of (edges g) (seg_id street) = None"
  shows "adjacencyMatchesEdges (addStreet g street)"
proof (cases "length (seg_path street) < 2")
  case True
  then show ?thesis using assms by (simp add: addStreet_short)
next
  case False
  then have len: "2 \<le> length (seg_path street)" by simp
  obtain a b where ab: "nodeIdForStreetEndpoint street Start = Some a"
      "nodeIdForStreetEndpoint street End = Some b"
    using nodeId_defined[OF len] by blast
  have fresh: "map_of (edges g) (seg_id street) = None" using assms len by simp
  show ?thesis
    unfolding adjacencyMatchesEdges_def
  proof (intro allI)
    fix n eid
    have old: "adjacencyCount g n eid =
        (case map_of (edges g) eid of
           None \<Rightarrow> 0
         | Some e \<Rightarrow> (if edge_from e = n then 1 else 0) + (if edge_to e = n then 1 else 0))"
      using assms(1) by (simp add: adjacencyMatchesEdges_def)
    show "adjacencyCount (addStreet g street) n eid =
        (case map_of (edges (addStreet g street)) eid of
           None \<Rightarrow> 0
         | Some e \<Rightarrow> (if edge_from e = n then 1 else 0) + (if edge_to e = n then 1 else 0))"
    proof (cases "eid = seg_id street")
      case True
      have "adjacencyCount g n eid = 0" using old fresh True by simp
      then show ?thesis
        using True
        by (simp add: adjacencyCount_def neighborsOf_addStreet[OF len ab] edges_addStreet[OF len ab])
    next
      case False
      then show ?thesis
        using old
        by (simp add: adjacencyCount_def neighborsOf_addStreet[OF len ab] edges_addStreet[OF len ab])
    qed
  qed
qed

lemma dom_edges_addStreet:
  "dom (map_of (edges (addStreet g street))) \<subseteq> insert (seg_id street) (dom (map_of (edges g)))"
proof (cases "length (seg_path street) < 2")
  case True
  then show ?thesis by (auto simp: addStreet_short)
next
  case False
  then have len: "2 \<le> length (seg_path street)" by simp
  obtain a b where ab: "nodeIdForStreetEndpoint street Start = Some a"
      "nodeIdForStreetEndpoint street End = Some b"
    using nodeId_defined[OF len] by blast
  show ?thesis by (auto simp: edges_addStreet[OF len ab])
qed

lemma dom_edges_addStreet_short:
  "length (seg_path street) < 2 \<Longrightarrow> edges (addStreet g street) = edges g"
  by (simp add: addStreet_short)

lemma adjacencyMatchesEdges_foldl:
  "adjacencyMatchesEdges g \<Longrightarrow> distinct (usableIds streets) \<Longrightarrow>
   dom (map_of (edges g)) \<inter> set (usableIds streets) = {} \<Longrightarrow>
   adjacencyMatchesEdges (foldl addStreet g streets)"
proof (induction streets arbitrary: g)
  case Nil
  then show ?case by simp
next
  case (Cons s streets)
  have step: "adjacencyMatchesEdges (addStreet g s)"
    using Cons.prems by (intro adjacencyMatchesEdges_addStreet) (auto simp: usableIds_def)
  have d: "distinct (usableIds streets)"
    using Cons.prems(2) by (auto simp: usableIds_def split: if_splits)
  have "dom (map_of (edges (addStreet g s))) \<inter> set (usableIds streets) = {}"
  proof (cases "length (seg_path s) < 2")
    case True
    then show ?thesis using Cons.prems(3) by (auto simp: addStreet_short usableIds_def)
  next
    case False
    then have "seg_id s \<notin> set (usableIds streets)"
      using Cons.prems(2) by (auto simp: usableIds_def)
    moreover have "dom (map_of (edges g)) \<inter> set (usableIds streets) = {}"
      using Cons.prems(3) by (auto simp: usableIds_def split: if_splits)
    ultimately show ?thesis using dom_edges_addStreet[of g s] by blast
  qed
  from Cons.IH[OF step d this] show ?case by simp
qed

lemma adjacencyMatchesEdges_build:
  "distinct (usableIds streets) \<Longrightarrow> adjacencyMatchesEdges (buildStreetGraph streets)"
  unfolding buildStreetGraph_def
  by (rule adjacencyMatchesEdges_foldl)
     (auto simp: adjacencyMatchesEdges_def emptyGraph_def adjacencyCount_def neighborsOf_def)

lemmas graph_eval =
  buildStreetGraph_def addStreet_def nodeIdForStreetEndpoint_def mapHas_def mapModify_def
  emptyGraph_def adjacencyCount_def neighborsOf_def Let_def

text \<open>
  C4, as stated, fails on a closed way: the edge of \<open>ringRoad\<close> starts and ends at
  the same node, whose adjacency list gets two entries for it. It also fails when two
  segments carry the same id: the edge map keeps one edge for the id, the adjacency lists
  one entry for each segment.
\<close>

theorem buildStreetGraph_adjacency_counterexample:
  "map_option edge_from (map_of (edges (buildStreetGraph [ringRoad])) ''osm-7-1-1-1'')
     = Some ''osm-node-1'' \<and>
   adjacencyCount (buildStreetGraph [ringRoad]) ''osm-node-1'' ''osm-7-1-1-1'' = 2 \<and>
   map_option edge_from (map_of (edges (buildStreetGraph [elmStreet ''m1'', elmStreet ''m1''])) ''m1'')
     = Some ''A'' \<and>
   adjacencyCount (buildStreetGraph [elmStreet ''m1'', elmStreet ''m1'']) ''A'' ''m1'' = 2"
  by (simp add: graph_eval ringRoad_def elmStreet_def)

lemma distinct_keys_addStreet:
  "distinct (map fst (edges g)) \<Longrightarrow> distinct (map fst (edges (addStreet g street)))"
  by (auto simp: addStreet_def Let_def distinct_update split: option.splits)

lemma distinct_keys_foldl:
  "distinct (map fst (edges g)) \<Longrightarrow> distinct (map fst (edges (foldl addStreet g streets)))"
  by (induction streets arbitrary: g) (auto simp: distinct_keys_addStreet)

lemma distinct_keys_build: "distinct (map fst (edges (buildStreetGraph streets)))"
  unfolding buildStreetGraph_def by (rule distinct_keys_foldl) (simp add: emptyGraph_def)

lemma edgesKeyedById_addStreet:
  "edgesKeyedById g \<Longrightarrow> edgesKeyedById (addStreet g street)"
  by (auto simp: edgesKeyedById_def addStreet_def Let_def update_conv' split: option.splits if_splits)

lemma edgesKeyedById_foldl:
  "edgesKeyedById g \<Longrightarrow> edgesKeyedById (foldl addStreet g streets)"
  by (induction streets arbitrary: g) (auto simp: edgesKeyedById_addStreet)

lemma edgesKeyedById_build: "edgesKeyedById (buildStreetGraph streets)"
  unfolding buildStreetGraph_def
  by (rule edgesKeyedById_foldl) (simp add: edgesKeyedById_def emptyGraph_def)

text \<open>
  C4, amended: when the segments that become edges have pairwise distinct ids, every edge
  of the graph is stored under its id, an edge between two different nodes has exactly
  one entry in the adjacency list of each of them, and an edge from a node to itself has
  exactly two entries in the adjacency list of that node.
\<close>

theorem buildStreetGraph_adjacency:
  assumes "distinct (usableIds streets)"
    and "(k, e) \<in> set (edges (buildStreetGraph streets))"
  shows "edge_id e = k \<and>
         (if edge_from e = edge_to e
          then adjacencyCount (buildStreetGraph streets) (edge_from e) (edge_id e) = 2
          else adjacencyCount (buildStreetGraph streets) (edge_from e) (edge_id e) = 1 \<and>
               adjacencyCount (buildStreetGraph streets) (edge_to e) (edge_id e) = 1)"
proof -
  have m: "map_of (edges (buildStreetGraph streets)) k = Some e"
    using assms(2) distinct_keys_build by simp
  then have k: "edge_id e = k" using edgesKeyedById_build by (simp add: edgesKeyedById_def)
  have "adjacencyMatchesEdges (buildStreetGraph streets)"
    using assms(1) by (rule adjacencyMatchesEdges_build)
  then show ?thesis using m k by (simp add: adjacencyMatchesEdges_def)
qed

theorem buildStreetGraph_adjacency_witness:
  "adjacencyCount (buildStreetGraph [elmStreet ''m1'', ringRoad]) ''A'' ''m1'' = 1 \<and>
   adjacencyCount (buildStreetGraph [elmStreet ''m1'', ringRoad]) ''B'' ''m1'' = 1"
proof -
  let ?e = "\<lparr>edge_id = ''m1'', edge_streetId = ''m1'', edge_streetName = ''Elm Street'',
      edge_from = ''A'', edge_to = ''B'',
      edge_path = [\<lparr>lat = 0, lon = 0\<rparr>, \<lparr>lat = 1 / 1000, lon = 0\<rparr>],
      edge_distanceKm = polylineDistanceKm [\<lparr>lat = 0, lon = 0\<rparr>, \<lparr>lat = 1 / 1000, lon = 0\<rparr>]\<rparr>"
  have d: "distinct (usableIds [elmStreet ''m1'', ringRoad])"
    by (simp add: usableIds_def ringRoad_def elmStreet_def)
  have e: "(''m1'', ?e) \<in> set (edges (buildStreetGraph [elmStreet ''m1'', ringRoad]))"
    by (simp add: graph_eval ringRoad_def elmStreet_def)
  from buildStreetGraph_adjacency[OF d e] show ?thesis by simp
qed

subsection \<open>Way splitting\<close>

lemma usageCount_bumpUsage:
  "usageCount (bumpUsage u k) n = (if n = k then usageCount u k + 1 else usageCount u n)"
  by (simp add: usageCount_def bumpUsage_def update_conv')

lemma usageCount_inner:
  "usageCount (foldl bumpUsage u0 ns) n = usageCount u0 n + count_list ns n"
  by (induction ns arbitrary: u0) (auto simp: usageCount_bumpUsage)

lemma usageCount_outer:
  "usageCount (foldl (\<lambda>nodeUsage way. foldl bumpUsage nodeUsage (way_nodes way)) u0 ways) n =
     usageCount u0 n + occurrences ways n"
  by (induction ways arbitrary: u0) (auto simp: usageCount_inner occurrences_def)

lemma usageCount_countNodeUsage: "usageCount (countNodeUsage ways) n = occurrences ways n"
  by (simp add: countNodeUsage_def usageCount_outer) (simp add: usageCount_def)

lemma foldl_setAdd_filter:
  "distinct is \<Longrightarrow> set is \<inter> set s0 = {} \<Longrightarrow>
   foldl (\<lambda>s i. if P i then setAdd i s else s) s0 is = s0 @ filter P is"
  by (induction "is" arbitrary: s0) (auto simp: setAdd_def)

lemma splitIndices_eq:
  assumes "2 \<le> length ns"
  shows "splitIndices nodeUsage ns =
           [0, length ns - 1] @ filter (\<lambda>i. 1 < usageCount nodeUsage (ns ! i)) [1..<length ns - 1]"
proof -
  have s0: "setAdd (length ns - 1) (setAdd 0 []) = [0, length ns - 1]"
    using assms by (simp add: setAdd_def)
  show ?thesis
    unfolding splitIndices_def s0
    by (rule foldl_setAdd_filter) auto
qed

lemma sorted_filter_upt: "sorted (filter P [a..<b])"
  by (rule sorted_wrt_filter) simp

lemma map_filter_concat:
  "List.map_filter f xs = concat (map (\<lambda>x. case f x of None \<Rightarrow> [] | Some s \<Rightarrow> [s]) xs)"
  by (induction xs) (auto simp: map_filter_simps split: option.splits)

lemma orderedSplits_eq:
  assumes "2 \<le> length ns"
  shows "orderedSplits (countNodeUsage ways) ns = splitPoints ways ns"
proof -
  have P: "(\<lambda>i. 1 < usageCount (countNodeUsage ways) (ns ! i)) = (\<lambda>i. 2 \<le> occurrences ways (ns ! i))"
    by (auto simp: usageCount_countNodeUsage)
  have "sort ([0, length ns - 1] @ filter (\<lambda>i. 2 \<le> occurrences ways (ns ! i)) [1..<length ns - 1])
        = splitPoints ways ns"
    unfolding splitPoints_def
    by (rule properties_for_sort) (auto simp: sorted_append sorted_filter_upt)
  moreover have "orderedSplits (countNodeUsage ways) ns =
      sort ([0, length ns - 1] @
        filter (\<lambda>i. 1 < usageCount (countNodeUsage ways) (ns ! i)) [1..<length ns - 1])"
    by (simp only: orderedSplits_def splitIndices_eq[OF assms])
  ultimately show ?thesis by (simp only: P)
qed

lemma splitPoints_strict:
  assumes "2 \<le> length ns"
  shows "sorted_wrt (<) (splitPoints ways ns)"
  using assms unfolding splitPoints_def
  by (auto simp: sorted_wrt_append strict_sorted_iff[symmetric] sorted_wrt_filter)

lemma splitPoints_bound:
  "2 \<le> length ns \<Longrightarrow> x \<in> set (splitPoints ways ns) \<Longrightarrow> x < length ns"
  by (auto simp: splitPoints_def)

lemma splitPoints_length: "2 \<le> length (splitPoints ways ns)"
  by (simp add: splitPoints_def)

lemma splitPoints_hd: "splitPoints ways ns ! 0 = 0"
  by (simp add: splitPoints_def)

lemma collectPath_length: "collectPath m ns = Some p \<Longrightarrow> length p = length ns"
  by (induction ns arbitrary: p) (auto split: option.splits)

lemma collectPath_take: "collectPath m (take k ns) = None \<Longrightarrow> collectPath m ns = None"
proof (induction ns arbitrary: k)
  case Nil
  then show ?case by simp
next
  case (Cons n ns)
  then show ?case by (cases k) (auto split: option.splits)
qed

lemma splitSegment_spec:
  assumes len: "2 \<le> length (way_nodes way)"
    and i: "1 \<le> i" "i < length (splitPoints ways (way_nodes way))"
  shows "splitSegment nodeMap way (splitPoints ways (way_nodes way)) i =
     (let ns = way_nodes way; sp = splitPoints ways ns in
      case collectPath nodeMap (sliceNodes (sp ! (i - 1)) (sp ! i) ns) of
              None \<Rightarrow> None
            | Some p \<Rightarrow>
                Some (osmSegment
                   (''osm-'' @ showInt (way_id way) @ ''-'' @ showInt (ns ! (sp ! (i - 1))) @
                    ''-'' @ showInt (ns ! (sp ! i)) @ ''-'' @ showNat i)
                   (way_name way) p (ns ! (sp ! (i - 1))) (ns ! (sp ! i))))"
proof -
  let ?ns = "way_nodes way"
  let ?sp = "splitPoints ways ?ns"
  let ?a = "?sp ! (i - 1)"
  let ?b = "?sp ! i"
  have ab: "?a < ?b"
    using splitPoints_strict[OF len, of ways] i by (simp add: sorted_wrt_iff_nth_less)
  have b: "?b < length ?ns"
    using splitPoints_bound[OF len, of ?b ways] i by simp
  have sl: "length (sliceNodes ?a ?b ?ns) = ?b + 1 - ?a"
    using ab b by (simp add: sliceNodes_def)
  have ne: "sliceNodes ?a ?b ?ns \<noteq> []" using sl ab by auto
  have h: "hd (sliceNodes ?a ?b ?ns) = ?ns ! ?a"
    using ab b by (simp add: sliceNodes_def hd_drop_conv_nth)
  have l: "last (sliceNodes ?a ?b ?ns) = ?ns ! ?b"
  proof -
    have "last (sliceNodes ?a ?b ?ns) =
            (sliceNodes ?a ?b ?ns) ! (length (sliceNodes ?a ?b ?ns) - 1)"
      by (rule last_conv_nth[OF ne])
    also have "length (sliceNodes ?a ?b ?ns) - 1 = ?b - ?a" using sl ab by simp
    also have "(sliceNodes ?a ?b ?ns) ! (?b - ?a) = ?ns ! ?b"
      using ab b by (simp add: sliceNodes_def)
    finally show ?thesis .
  qed
  show ?thesis
    using ab sl h l
    by (auto simp: splitSegment_def Let_def split: option.splits dest: collectPath_length)
qed

lemma waySegments_spec:
  assumes len: "2 \<le> length (way_nodes way)"
  shows "waySegments nodeMap (countNodeUsage ways) way = splitSegmentsSpec nodeMap ways way"
proof -
  let ?sp = "splitPoints ways (way_nodes way)"
  have "List.map_filter (splitSegment nodeMap way ?sp) [1..<length ?sp] =
        concat (map (\<lambda>i. case splitSegment nodeMap way ?sp i of None \<Rightarrow> [] | Some s \<Rightarrow> [s])
          [1..<length ?sp])"
    by (rule map_filter_concat)
  also have "\<dots> = splitSegmentsSpec nodeMap ways way"
    unfolding splitSegmentsSpec_def Let_def
    by (rule arg_cong[where f = concat], rule map_cong)
       (auto simp: splitSegment_spec[OF len] Let_def split: option.splits)
  finally show ?thesis
    by (simp add: waySegments_def orderedSplits_eq[OF len] Let_def)
qed

lemma retainedWay_length: "retainedWay e = Some w \<Longrightarrow> 2 \<le> length (way_nodes w)"
  by (auto simp: retainedWay_def split: if_splits option.splits)

lemma retainedWays_length: "w \<in> set (retainedWays payload) \<Longrightarrow> 2 \<le> length (way_nodes w)"
  by (auto simp: retainedWays_def List.map_filter_def dest: retainedWay_length)

lemma no_fallback:
  assumes len: "2 \<le> length (way_nodes way)"
    and empty: "splitSegmentsSpec nodeMap ways way = []"
  shows "wholeWaySegment nodeMap way = None"
proof -
  let ?ns = "way_nodes way"
  let ?sp = "splitPoints ways ?ns"
  have one: "Suc 0 \<in> set [1..<length ?sp]" using splitPoints_length[of ways ?ns] by simp
  have "\<forall>i \<in> set [1..<length ?sp].
          collectPath nodeMap (sliceNodes (?sp ! (i - 1)) (?sp ! i) ?ns) = None"
    using empty unfolding splitSegmentsSpec_def Let_def
    by (auto split: option.splits)
  from bspec[OF this one]
  have "collectPath nodeMap (take (?sp ! Suc 0 + 1) ?ns) = None"
    by (simp add: splitPoints_hd sliceNodes_def)
  then have "collectPath nodeMap ?ns = None" by (rule collectPath_take)
  then show ?thesis by (simp add: wholeWaySegment_def)
qed

lemma parse_refines:
  "parseOverpassResponse payload =
     concat (map (splitSegmentsSpec (collectNodeMap payload) (retainedWays payload))
       (retainedWays payload))"
proof -
  let ?m = "collectNodeMap payload"
  let ?ws = "retainedWays payload"
  have seg: "map (waySegments ?m (countNodeUsage ?ws)) ?ws = map (splitSegmentsSpec ?m ?ws) ?ws"
    by (rule map_cong) (auto simp: waySegments_spec retainedWays_length)
  have fb: "List.map_filter (wholeWaySegment ?m) ?ws = []"
    if "concat (map (splitSegmentsSpec ?m ?ws) ?ws) = []"
  proof -
    have "\<forall>w \<in> set ?ws. wholeWaySegment ?m w = None"
      using that by (auto intro!: no_fallback retainedWays_length)
    then show ?thesis by (simp add: List.map_filter_def filter_empty_conv)
  qed
  show ?thesis
    by (simp only: parseOverpassResponse_def Let_def seg) (use fb in auto)
qed

lemma shared_interior_node:
  assumes "way_nodes w = [n1, n2, n3]" and "2 \<le> occurrences ways n2"
    and "map_of nodeMap n1 = Some p1" and "map_of nodeMap n2 = Some p2"
    and "map_of nodeMap n3 = Some p3"
  shows "splitSegmentsSpec nodeMap ways w =
     [osmSegment (''osm-'' @ showInt (way_id w) @ ''-'' @ showInt n1 @ ''-'' @ showInt n2 @ ''-1'')
        (way_name w) [p1, p2] n1 n2,
      osmSegment (''osm-'' @ showInt (way_id w) @ ''-'' @ showInt n2 @ ''-'' @ showInt n3 @ ''-2'')
        (way_name w) [p2, p3] n2 n3]"
proof -
  have sp: "splitPoints ways [n1, n2, n3] = [0, 1, 2]"
    using assms(2) by (simp add: splitPoints_def)
  have u: "[1..<3] = [1, 2]" by (simp add: upt_rec)
  have s1: "showNat (Suc 0) = ''1''" and s2: "showNat (Suc (Suc 0)) = ''2''" by code_simp+
  show ?thesis
    using assms by (simp add: splitSegmentsSpec_def Let_def sp u sliceNodes_def s1 s2)
qed

text \<open>
  C6, as stated, fails in three ways. A way that passes the same node twice is split at
  that node although no other way uses it. A split with a node that has no coordinates
  emits no segment, so way 5 of \<open>missingNodePayload\<close> yields one segment, not two. And
  when splitting emits nothing the fallback pass emits nothing either: the result is
  empty, not one segment for each way.
\<close>

theorem parseOverpassResponse_splits_counterexample:
  "map seg_id (parseOverpassResponse figureEightPayload) =
     [''osm-5-1-2-1'', ''osm-5-2-2-2'', ''osm-5-2-4-3''] \<and>
   map seg_id (parseOverpassResponse missingNodePayload) = [''osm-5-1-2-1'', ''osm-6-2-5-1''] \<and>
   length (retainedWays noCoordinatesPayload) = 1 \<and>
   parseOverpassResponse noCoordinatesPayload = []"
  by code_simp

text \<open>
  C6, amended: the result of \<open>parseOverpassResponse\<close> is, way by way, the list of the
  segments between consecutive split points (first index, interior indices whose node id
  occurs twice at least in the node lists of the kept ways, last index) whose nodes all
  have coordinates, each with the id \<open>osm-<wayId>-<startNodeRaw>-<endNodeRaw>-<splitIndex>\<close>;
  no segment with the id \<open>osm-<wayId>\<close> is ever emitted. In particular a way
  \<open>[n1, n2, n3]\<close> whose three nodes have coordinates and whose node \<open>n2\<close> occurs twice
  yields exactly the segments \<open>n1\<close>--\<open>n2\<close> and \<open>n2\<close>--\<open>n3\<close>.
\<close>

theorem parseOverpassResponse_splits:
  "parseOverpassResponse payload =
     concat (map (splitSegmentsSpec (collectNodeMap payload) (retainedWays payload))
       (retainedWays payload)) \<and>
   (way_nodes w = [n1, n2, n3] \<and> 2 \<le> occurrences ways n2 \<and>
    map_of nodeMap n1 = Some p1 \<and> map_of nodeMap n2 = Some p2 \<and> map_of nodeMap n3 = Some p3 \<longrightarrow>
    splitSegmentsSpec nodeMap ways w =
     [osmSegment (''osm-'' @ showInt (way_id w) @ ''-'' @ showInt n1 @ ''-'' @ showInt n2 @ ''-1'')
        (way_name w) [p1, p2] n1 n2,
      osmSegment (''osm-'' @ showInt (way_id w) @ ''-'' @ showInt n2 @ ''-'' @ showInt n3 @ ''-2'')
        (way_name w) [p2, p3] n2 n3])"
  using parse_refines shared_interior_node by blast

lemma sharedNodePayload_ways:
  "retainedWays sharedNodePayload =
     [\<lparr>way_id = 5, way_name = ''Oak Avenue'', way_nodes = [1, 2, 3]\<rparr>,
      \<lparr>way_id = 6, way_name = ''Pine Street'', way_nodes = [2, 5]\<rparr>]"
  by code_simp

lemma sharedNodePayload_nodes:
  "collectNodeMap sharedNodePayload =
     [(1, \<lparr>lat = 0, lon = 0\<rparr>), (2, \<lparr>lat = 0, lon = 1\<rparr>), (3, \<lparr>lat = 0, lon = 2\<rparr>),
      (5, \<lparr>lat = 1, lon = 1\<rparr>)]"
  by code_simp

lemma showInt_examples:
  "showInt 1 = ''1''" "showInt 2 = ''2''" "showInt 3 = ''3''" "showInt 5 = ''5''"
  by code_simp+

theorem parseOverpassResponse_splits_witness:
  "parseOverpassResponse sharedNodePayload =
     concat (map (splitSegmentsSpec (collectNodeMap sharedNodePayload)
        (retainedWays sharedNodePayload)) (retainedWays sharedNodePayload)) \<and>
   splitSegmentsSpec (collectNodeMap sharedNodePayload) (retainedWays sharedNodePayload)
      \<lparr>way_id = 5, way_name = ''Oak Avenue'', way_nodes = [1, 2, 3]\<rparr> =
     [osmSegment ''osm-5-1-2-1'' ''Oak Avenue'' [\<lparr>lat = 0, lon = 0\<rparr>, \<lparr>lat = 0, lon = 1\<rparr>] 1 2,
      osmSegment ''osm-5-2-3-2'' ''Oak Avenue'' [\<lparr>lat = 0, lon = 1\<rparr>, \<lparr>lat = 0, lon = 2\<rparr>] 2 3]"
proof -
  let ?w = "\<lparr>way_id = 5, way_name = ''Oak Avenue'', way_nodes = [1, 2, 3]\<rparr>"
  have h: "way_nodes ?w = [1, 2, 3] \<and> 2 \<le> occurrences (retainedWays sharedNodePayload) 2 \<and>
      map_of (collectNodeMap sharedNodePayload) 1 = Some \<lparr>lat = 0, lon = 0\<rparr> \<and>
      map_of (collectNodeMap sharedNodePayload) 2 = Some \<lparr>lat = 0, lon = 1\<rparr> \<and>
      map_of (collectNodeMap sharedNodePayload) 3 = Some \<lparr>lat = 0, lon = 2\<rparr>"
    by (simp add: sharedNodePayload_ways sharedNodePayload_nodes occurrences_def)
  from parseOverpassResponse_splits [of sharedNodePayload ?w 1 2 3
      "retainedWays sharedNodePayload" "collectNodeMap sharedNodePayload"
      "\<lparr>lat = 0, lon = 0\<rparr>" "\<lparr>lat = 0, lon = 1\<rparr>" "\<lparr>lat = 0, lon = 2\<rparr>"] h
  show ?thesis by (simp add: showInt_examples)
qed

subsection \<open>Distances along a meridian\<close>

lemma atan2_sin_cos:
  assumes "0 \<le> x" "x \<le> pi / 2"
  shows "atan2 (sin x) (cos x) = x"
proof (cases "x = pi / 2")
  case True
  have "sin (pi / 2) = 1" "cos (pi / 2) = 0" by simp_all
  then show ?thesis unfolding True by (simp add: atan2_def)
next
  case False
  then have lt: "x < pi / 2" using assms by simp
  then have c: "0 < cos x" using assms by (intro cos_gt_zero_pi) auto
  have "arctan (sin x / cos x) = x"
    using arctan_tan[of x] assms lt by (simp add: tan_def)
  then show ?thesis using c by (simp add: atan2_def)
qed

lemma haversineKm_kmNorth:
  assumes "\<bar>b - a\<bar> \<le> 6371 * pi"
  shows "haversineKm (kmNorth a) (kmNorth b) = \<bar>b - a\<bar>"
proof -
  define x where "x = \<bar>b - a\<bar> / 12742"
  have x: "0 \<le> x" "x \<le> pi / 2" using assms by (auto simp: x_def)
  have s: "0 \<le> sin x" using x pi_gt_zero by (intro sin_ge_zero) auto
  have c: "0 \<le> cos x" using x by (intro cos_ge_zero) auto
  have d: "toRad (lat (kmNorth b) - lat (kmNorth a)) / 2 = (b - a) / 12742"
    by (simp add: toRad_def kmNorth_def field_simps)
  have sq: "sin ((b - a) / 12742) * sin ((b - a) / 12742) = (sin x)\<^sup>2"
  proof (cases "0 \<le> b - a")
    case True
    then show ?thesis by (simp add: x_def power2_eq_square)
  next
    case False
    then have "\<bar>b - a\<bar> = - (b - a)" by simp
    then have "(b - a) / 12742 = - x" unfolding x_def by (simp add: field_simps)
    then show ?thesis by (simp add: power2_eq_square)
  qed
  have c1: "1 - (sin x)\<^sup>2 = (cos x)\<^sup>2"
    using sin_cos_squared_add[of x] by linarith
  have "haversineKm (kmNorth a) (kmNorth b) = 6371 * 2 * atan2 (sqrt ((sin x)\<^sup>2)) (sqrt (1 - (sin x)\<^sup>2))"
    unfolding haversineKm_def Let_def d
    by (simp add: sq) (simp add: kmNorth_def toRad_def)
  also have "\<dots> = 6371 * 2 * atan2 (sin x) (cos x)"
    using s c by (simp add: c1)
  also have "\<dots> = 6371 * 2 * x" using x by (simp add: atan2_sin_cos)
  also have "\<dots> = \<bar>b - a\<bar>" by (simp add: x_def)
  finally show ?thesis .
qed

lemma haversineKm_kmNorth_near:
  "\<bar>b - a\<bar> \<le> 12742 \<Longrightarrow> haversineKm (kmNorth a) (kmNorth b) = \<bar>b - a\<bar>"
proof (rule haversineKm_kmNorth)
  assume "\<bar>b - a\<bar> \<le> 12742"
  moreover have "(12742 :: real) \<le> 6371 * pi" using pi_ge_two by simp
  ultimately show "\<bar>b - a\<bar> \<le> 6371 * pi" by linarith
qed

subsection \<open>Invariants of the planner's loops\<close>

text \<open>
  A property of the planner state that every applied step keeps, and that does not
  depend on the Dijkstra cache, holds after each of the loops.
\<close>

lemma applySpurSteps_invariant:
  assumes step: "\<And>s st ap. P st \<Longrightarrow> applyTraversalStep ctx s st = Some ap \<Longrightarrow> P (advance ap)"
  shows "P st \<Longrightarrow> P (fst (applySpurSteps ctx steps st))"
proof (induction steps arbitrary: st)
  case Nil
  then show ?case by simp
next
  case (Cons s steps)
  show ?case
  proof (cases "applyTraversalStep ctx s st")
    case None
    then show ?thesis using Cons.prems by simp
  next
    case (Some ap)
    then show ?thesis using Cons.IH[OF step[OF Cons.prems Some]] by simp
  qed
qed

lemma runDeadEndSpurSweeps_invariant:
  assumes step: "\<And>s st ap. P st \<Longrightarrow> applyTraversalStep ctx s st = Some ap \<Longrightarrow> P (advance ap)"
  shows "P st \<Longrightarrow> P (runDeadEndSpurSweeps ctx n st)"
proof (induction n arbitrary: st)
  case 0
  then show ?case by simp
next
  case (Suc n)
  have ap: "P (fst (applySpurSteps ctx steps st))" for steps
    using applySpurSteps_invariant[of P ctx, OF step Suc.prems] .
  show ?case
    using Suc.prems ap Suc.IH
    by (auto simp: Let_def split: option.splits prod.splits)
       (metis fst_conv)+
qed

lemma runImmediateBranchSweep_invariant:
  assumes step: "\<And>s st ap. P st \<Longrightarrow> applyTraversalStep ctx s st = Some ap \<Longrightarrow> P (advance ap)"
  shows "P st \<Longrightarrow> P (runImmediateBranchSweep ctx n st)"
proof (induction n arbitrary: st)
  case 0
  then show ?case by simp
next
  case (Suc n)
  have sw: "P (runDeadEndSpurSweeps ctx 2 (advance ap))"
    if "applyTraversalStep ctx s st = Some ap" for s ap
    using runDeadEndSpurSweeps_invariant[of P ctx, OF step step[OF Suc.prems that]] .
  show ?case
    using Suc.prems sw Suc.IH
    by (auto simp: Let_def split: option.splits)
qed

lemma sweeps_invariant:
  assumes step: "\<And>s st ap. P st \<Longrightarrow> applyTraversalStep ctx s st = Some ap \<Longrightarrow> P (advance ap)"
  shows "P st \<Longrightarrow> P (runImmediateBranchSweep ctx m (runDeadEndSpurSweeps ctx n st))"
proof -
  assume "P st"
  with step have "P (runDeadEndSpurSweeps ctx n st)" by (rule runDeadEndSpurSweeps_invariant)
  with step show ?thesis by (rule runImmediateBranchSweep_invariant)
qed

lemma walkConnectorSteps_invariant:
  assumes step: "\<And>s st ap. P st \<Longrightarrow> applyTraversalStep ctx s st = Some ap \<Longrightarrow> P (advance ap)"
  shows "P st \<Longrightarrow> P (fst (walkConnectorSteps ctx steps st))"
proof (induction steps arbitrary: st)
  case Nil
  then show ?case by simp
next
  case (Cons s steps)
  have sw: "P (runImmediateBranchSweep ctx 2 (runDeadEndSpurSweeps ctx 3 (advance ap)))"
    if "applyTraversalStep ctx s st = Some ap" for ap
    using sweeps_invariant[of P ctx, OF step step[OF Cons.prems that]] .
  show ?case
    using Cons.prems sw Cons.IH
    by (auto simp: Let_def split: option.splits)
qed

lemma mainLoop_invariant:
  assumes step: "\<And>s st ap. P st \<Longrightarrow> applyTraversalStep ctx s st = Some ap \<Longrightarrow> P (advance ap)"
    and cache: "\<And>st c. P st \<Longrightarrow> P (st\<lparr>ps_dijkstraCache := c\<rparr>)"
  shows "P st \<Longrightarrow> mainLoop ctx n st = Some st' \<Longrightarrow> P st'"
proof (induction n arbitrary: st)
  case 0
  then show ?case by simp
next
  case (Suc n)
  let ?st1 = "runImmediateBranchSweep ctx 6 (runDeadEndSpurSweeps ctx 5 st)"
  have p1: "P ?st1" using sweeps_invariant[of P ctx, OF step Suc.prems(1)] .
  show ?case
  proof (cases "\<not> ps_distanceKm st < pc_hardMaxKm ctx")
    case True
    then show ?thesis using Suc.prems by simp
  next
    case run: False
    show ?thesis
    proof (cases "pc_hardMaxKm ctx \<le> ps_distanceKm ?st1")
      case True
      then show ?thesis using Suc.prems run p1 by (simp add: Let_def)
    next
      case below: False
      from Suc.prems(2) run below
      obtain mv c where fm: "findBestCoverageMove ctx ?st1 = Some (mv, c)"
        by (auto simp: Let_def split: option.splits)
      let ?st2 = "?st1\<lparr>ps_dijkstraCache := c\<rparr>"
      have p2: "P ?st2" using cache[OF p1] .
      show ?thesis
      proof (cases mv)
        case None
        have ext: "P (advance ap)" if "applyTraversalStep ctx s ?st2 = Some ap" for s ap
          using step[OF p2 that] .
        show ?thesis
          using Suc.prems(2) run below fm None p2 ext Suc.IH
          by (auto simp: Let_def split: option.splits if_splits) blast+
      next
        case (Some move)
        obtain st2 aborted where
          w: "walkConnectorSteps ctx (move_connectorSteps move) ?st2 = (st2, aborted)"
          by (cases "walkConnectorSteps ctx (move_connectorSteps move) ?st2")
        have "P (fst (walkConnectorSteps ctx (move_connectorSteps move) ?st2))"
          using step p2 by (rule walkConnectorSteps_invariant)
        then have p3: "P st2" using w by simp
        have tgt: "P (runImmediateBranchSweep ctx 2 (runDeadEndSpurSweeps ctx 3 (advance ap)))"
          if "applyTraversalStep ctx s st2 = Some ap" for s ap
          using sweeps_invariant[of P ctx, OF step step[OF p3 that]] .
        show ?thesis
          using Suc.prems(2) run below fm Some w p3 tgt Suc.IH
          by (auto simp: Let_def split: option.splits if_splits) blast+
      qed
    qed
  qed
qed

lemma setAdd_not_Nil: "setAdd x xs \<noteq> []"
  by (auto simp: setAdd_def)

lemma namesFollowIds_step:
  "applyTraversalStep ctx s st = Some ap \<Longrightarrow> namesFollowIds (advance ap)"
  by (auto simp: applyTraversalStep_def advance_def namesFollowIds_def setAdd_not_Nil
      split: option.splits)

lemma namesFollowIds_mainLoop:
  assumes "mainLoop ctx n (initialState startNodeId) = Some st"
  shows "namesFollowIds st"
proof (rule mainLoop_invariant[where P = namesFollowIds and ctx = ctx, OF _ _ _ assms])
  show "namesFollowIds (initialState startNodeId)"
    by (simp add: namesFollowIds_def initialState_def)
qed (auto simp: namesFollowIds_step, simp add: namesFollowIds_def)

subsection \<open>Evaluation of the planner\<close>

lemma loops_numeral_aux:
  "mainLoop ctx (numeral k) st = mainLoop ctx (Suc (pred_numeral k)) st"
  "runDeadEndSpurSweeps ctx (numeral k) st = runDeadEndSpurSweeps ctx (Suc (pred_numeral k)) st"
  "runImmediateBranchSweep ctx (numeral k) st = runImmediateBranchSweep ctx (Suc (pred_numeral k)) st"
  by (simp_all only: numeral_eq_Suc)

lemmas loops_numeral =
  trans[OF loops_numeral_aux(1) mainLoop.simps(2)]
  trans[OF loops_numeral_aux(2) runDeadEndSpurSweeps.simps(2)]
  trans[OF loops_numeral_aux(3) runImmediateBranchSweep.simps(2)]

lemmas weak_congs = let_weak_cong option.case_cong_weak list.case_cong_weak prod.case_cong_weak

lemmas planner_eval =
  findBestDeadEndSpurAtNode_def spurCandidate_def
  buildDeadEndForwardChainFromNode_def forwardChainLoop.simps chainTotals_def reverseSteps_def
  applyTraversalStep_def appendRouteStep_def advance_def neighborsOf_def degreeOf_def
  isSpent_def isCompleted_def setHas_def setAdd_def traversals_def
  findBestImmediateBranchStep_def branchCandidate_def bestStep_def
  findBestLocalExtension_def extensionCandidate_def initialState_def Let_def

lemma lane_candidates: "selectCandidateStreets [longLane] (kmNorth 0) (4 / 5) = [longLane]"
  by (simp add: selectCandidateStreets_def Let_def longLane_def entryDistance_def mathRound_def
      haversineKm_kmNorth_near)

lemma lane_graph: "buildStreetGraph [longLane] = laneGraph"
  by (simp add: graph_eval longLane_def polylineDistanceKm_def haversineKm_kmNorth_near
      laneGraph_def)

lemma lane_start: "findNearestNodeId (nodes laneGraph) (kmNorth 0) = Some ''A''"
  by (simp add: laneGraph_def findNearestNodeId_def haversineKm_kmNorth_near)

lemma lane_mainLoop:
  "mainLoop \<lparr>pc_graph = laneGraph, pc_targetKm = 4 / 5, pc_hardMaxKm = 123 / 100,
      pc_completedByStreetId = [(''lane'', False)]\<rparr> 140 (initialState ''A'') =
   Some laneFinalState"
  by (simp add: laneGraph_def laneFinalState_def planner_eval loops_numeral
      haversineKm_kmNorth_near cong: weak_congs)

lemma lane_run:
  "buildEfficientCoverageRoute uuid [longLane] (kmNorth 0) (1 / 2) None =
     Some (Some (routeOfState uuid laneGraph laneFinalState))"
proof -
  have c: "mapOfEntries [(''lane'', False)] = [(''lane'', False)]"
    by (simp add: mapOfEntries_def)
  have u: "seg_id longLane = ''lane''" "seg_completed longLane = False"
    by (simp_all add: longLane_def)
  have h: "hardMaxKmOf (4 / 5) = 123 / 100" "maxIterationsOf (4 / 5) = 140"
    by (simp_all add: hardMaxKmOf_def maxIterationsOf_def mathRound_def)
  have g: "edges laneGraph \<noteq> []" "nodes laneGraph \<noteq> []" by (simp_all add: laneGraph_def)
  have f: "ps_routePoints laneFinalState = [kmNorth 0, kmNorth 1, kmNorth 0]"
    "ps_coveredStreetIds laneFinalState = [''lane'']"
    by (simp_all add: laneFinalState_def)
  show ?thesis
    by (simp add: buildEfficientCoverageRoute_def lane_candidates lane_graph lane_start c u h g
        lane_mainLoop f cong: weak_congs)
qed

subsection \<open>The planner's result\<close>


text \<open>
  C10: a route that the planner returns has two points at least, and at least one street
  id and one street name.
\<close>

theorem route_not_degenerate:
  assumes "buildEfficientCoverageRoute uuid streets home targetKm cityBounds = Some (Some route)"
  shows "2 \<le> length (route_points route) \<and> 1 \<le> length (route_streetIds route) \<and>
         1 \<le> length (route_streetNames route)"
proof -
  from assms obtain ctx n startNodeId g st where
    run: "mainLoop ctx n (initialState startNodeId) = Some st"
    and pts: "\<not> length (ps_routePoints st) < 2" and ids: "ps_coveredStreetIds st \<noteq> []"
    and r: "route = routeOfState uuid g st"
    by (auto simp: buildEfficientCoverageRoute_def Let_def split: if_splits option.splits)
  have "ps_coveredStreetNames st \<noteq> []"
    using namesFollowIds_mainLoop[OF run] ids by (simp add: namesFollowIds_def)
  then show ?thesis
    using pts ids r
    by (cases "ps_coveredStreetIds st"; cases "ps_coveredStreetNames st")
       (simp_all add: routeOfState_def Let_def)
qed

theorem route_not_degenerate_witness:
  "2 \<le> length (route_points (routeOfState ''7f9c'' laneGraph laneFinalState)) \<and>
   1 \<le> length (route_streetIds (routeOfState ''7f9c'' laneGraph laneFinalState)) \<and>
   1 \<le> length (route_streetNames (routeOfState ''7f9c'' laneGraph laneFinalState))"
  by (rule route_not_degenerate[OF lane_run])




text \<open>
  C7: the planner returns \<open>null\<close> when every candidate segment is completed, when there
  is no candidate, and when the graph of the candidates has no edge or no node.
\<close>

theorem null_when_nothing_to_cover:
  assumes "candidates = selectCandidateStreets
             (case cityBounds of Some bounds \<Rightarrow> filterStreetsToCityBounds streets bounds
              | None \<Rightarrow> streets) home (max (8 / 10) targetKm)"
    and "list_all seg_completed candidates \<or> candidates = [] \<or>
         edges (buildStreetGraph candidates) = [] \<or> nodes (buildStreetGraph candidates) = []"
  shows "buildEfficientCoverageRoute uuid streets home targetKm cityBounds = Some None"
proof -
  have "length (filter (\<lambda>street. \<not> seg_completed street) candidates) = 0"
    if "list_all seg_completed candidates"
    using that by (simp add: list_all_iff filter_empty_conv)
  then show ?thesis
    using assms
    by (auto simp: buildEfficientCoverageRoute_def Let_def split: option.splits)
qed

subsection \<open>The hard maximum\<close>





















lemmas dijkstra_eval =
  runDijkstra_def initialDistances_def heapPush_def bubbleUp.simps heapPop_def bubbleDown.simps
  smallestOf_def swapAt_def dijkstraLoop.simps relaxNeighbor_def distanceOf_def
  compareEntries_def neighborsOf_def getDijkstraCached_def reconstructPathEdges_def
  walkPrev.simps Let_def


lemmas coverage_eval =
  findBestCoverageMove_def foldlOption.simps coverageCandidate_def pendingBranchEdgeIds_def
  connectorRepeatPenaltyOf_def orientPathEdges_def orientLoop.simps







lemma row_candidates: "selectCandidateStreets rowStreets (kmNorth 0) (4 / 5) = rowStreets"
  by (simp add: selectCandidateStreets_def Let_def rowStreets_def rowStreet_def entryDistance_def
      mathRound_def haversineKm_kmNorth_near)

lemma row_graph: "buildStreetGraph rowStreets = rowGraph"
  by (simp add: graph_eval rowStreets_def rowStreet_def rowEdge_def polylineDistanceKm_def
      haversineKm_kmNorth_near rowGraph_def)

lemma row_start: "findNearestNodeId (nodes rowGraph) (kmNorth 0) = Some ''S''"
  by (simp add: rowGraph_def findNearestNodeId_def haversineKm_kmNorth_near)

lemma row_dijkstra: "runDijkstra rowGraph ''S'' = Some rowFromS"
  by (simp add: rowGraph_def rowEdge_def rowFromS_def dijkstra_eval cong: weak_congs)

lemma row_cached:
  "getDijkstraCached [] rowGraph ''S'' = Some (rowFromS, [(''S'', rowFromS)])"
  by (simp add: getDijkstraCached_def row_dijkstra)

lemma row_move:
  "\<exists>move. findBestCoverageMove rowContext (initialState ''S'') =
            Some (Some move, [(''S'', rowFromS)]) \<and>
          move_connectorSteps move =
            [\<lparr>step_edgeId = ''first'', step_from = ''S'', step_to = ''X''\<rparr>,
             \<lparr>step_edgeId = ''second'', step_from = ''X'', step_to = ''Z''\<rparr>] \<and>
          move_targetStep move = \<lparr>step_edgeId = ''third'', step_from = ''Z'', step_to = ''W''\<rparr>"
proof -
  have c: "ps_dijkstraCache (initialState ''S'') = []" "pc_graph rowContext = rowGraph"
    "ps_currentNodeId (initialState ''S'') = ''S''"
    by (simp_all add: rowContext_def initialState_def)
  show ?thesis
    unfolding findBestCoverageMove_def c row_cached
    by (simp add: rowContext_def rowGraph_def rowEdge_def rowFromS_def planner_eval
        coverage_eval distanceOf_def dijkstra_eval cong: weak_congs)
qed

lemma row_mainLoop_Suc: "mainLoop rowContext (Suc n) (initialState ''S'') = Some rowFinalState"
proof -
  obtain move where
    fm: "findBestCoverageMove rowContext (initialState ''S'') = Some (Some move, [(''S'', rowFromS)])"
    and cs: "move_connectorSteps move =
            [\<lparr>step_edgeId = ''first'', step_from = ''S'', step_to = ''X''\<rparr>,
             \<lparr>step_edgeId = ''second'', step_from = ''X'', step_to = ''Z''\<rparr>]"
    and ts: "move_targetStep move = \<lparr>step_edgeId = ''third'', step_from = ''Z'', step_to = ''W''\<rparr>"
    using row_move by blast
  have s0: "runImmediateBranchSweep rowContext 6
      (runDeadEndSpurSweeps rowContext 5 (initialState ''S'')) = initialState ''S''"
    by (simp add: rowContext_def rowGraph_def rowEdge_def planner_eval loops_numeral
        cong: weak_congs)
  have d0: "ps_distanceKm (initialState ''S'') = 0" "pc_hardMaxKm rowContext = 123 / 100"
    by (simp_all add: initialState_def rowContext_def)
  have "mainLoop rowContext (Suc n) (initialState ''S'') =
      (case walkConnectorSteps rowContext (move_connectorSteps move)
              ((initialState ''S'')\<lparr>ps_dijkstraCache := [(''S'', rowFromS)]\<rparr>) of
         (st2, aborted) \<Rightarrow>
           if aborted then Some st2
           else
             (case map_of (edges (pc_graph rowContext)) (step_edgeId (move_targetStep move)) of
                None \<Rightarrow> Some st2
              | Some targetEdge \<Rightarrow>
                  if pc_hardMaxKm rowContext < ps_distanceKm st2 + edge_distanceKm targetEdge \<and>
                     pc_targetKm rowContext * (55 / 100) \<le> ps_distanceKm st2 then Some st2
                  else
                    (case applyTraversalStep rowContext (move_targetStep move) st2 of
                       None \<Rightarrow> Some st2
                     | Some targetAppend \<Rightarrow>
                         (let st3 = runImmediateBranchSweep rowContext 2
                                      (runDeadEndSpurSweeps rowContext 3 (advance targetAppend))
                          in if pc_targetKm rowContext * (103 / 100) \<le> ps_distanceKm st3 \<and>
                                0 < length (ps_rewardedStreetIds st3) then Some st3
                             else mainLoop rowContext n st3))))"
    by (simp add: s0 fm d0 cong: weak_congs)
  also have "\<dots> = Some rowFinalState"
    unfolding cs ts
    by (simp add: rowContext_def rowGraph_def rowEdge_def rowFinalState_def planner_eval
        loops_numeral walkConnectorSteps.simps haversineKm_kmNorth_near cong: weak_congs)
  finally show ?thesis .
qed

lemma row_run:
  "buildEfficientCoverageRoute uuid rowStreets (kmNorth 0) (4 / 5) None =
     Some (Some (routeOfState uuid rowGraph rowFinalState))"
proof -
  have c: "mapOfEntries (map (\<lambda>street. (seg_id street, seg_completed street)) rowStreets) =
      [(''first'', True), (''second'', True), (''third'', False)]"
    by (simp add: mapOfEntries_def rowStreets_def rowStreet_def)
  have u: "filter (\<lambda>street. \<not> seg_completed street) rowStreets \<noteq> []" "rowStreets \<noteq> []"
    by (simp_all add: rowStreets_def rowStreet_def)
  have h: "hardMaxKmOf (4 / 5) = 123 / 100" "maxIterationsOf (4 / 5) = 140"
    by (simp_all add: hardMaxKmOf_def maxIterationsOf_def mathRound_def)
  have g: "edges rowGraph \<noteq> []" "nodes rowGraph \<noteq> []" by (simp_all add: rowGraph_def)
  have f: "ps_routePoints rowFinalState =
      [kmNorth 0, kmNorth (9 / 10), kmNorth 1, kmNorth (11 / 10)]"
    "ps_coveredStreetIds rowFinalState = [''first'', ''third'']"
    by (simp_all add: rowFinalState_def)
  have m: "mainLoop \<lparr>pc_graph = rowGraph, pc_targetKm = 4 / 5, pc_hardMaxKm = 123 / 100,
      pc_completedByStreetId = [(''first'', True), (''second'', True), (''third'', False)]\<rparr>
      140 (initialState ''S'') = Some rowFinalState"
    using row_mainLoop_Suc[of 139] by (simp add: rowContext_def)
  show ?thesis
    unfolding buildEfficientCoverageRoute_def Let_def
    using u(1)
    by (simp add: row_candidates row_graph row_start c u(2) h g m f del: filter_empty_conv)
qed

text \<open>
  C3: on this input the planner plans the connectors \<open>S\<close>--\<open>X\<close>--\<open>Z\<close> and the target
  \<open>Z\<close>--\<open>W\<close>, leaves the connector loop after its first step (0.9 km is past 104% of
  the target of 0.8 km), and applies the target step all the same, from \<open>X\<close>. The points
  of the route are \<open>S\<close>, \<open>X\<close>, \<open>Z\<close>, \<open>W\<close>, 1.1 km long; \<open>distanceKm\<close> is 1 km, because the
  hop from \<open>X\<close> to \<open>Z\<close> is not counted.
\<close>

theorem route_distance_not_polyline_length:
  "map_option (map_option (\<lambda>route. (route_distanceKm route, polylineDistanceKm (route_points route))))
     (buildEfficientCoverageRoute ''7f9c'' rowStreets (kmNorth 0) (4 / 5) None) =
   Some (Some (1, 11 / 10))"
  by (simp add: row_run routeOfState_def Let_def rowFinalState_def polylineDistanceKm_def
      haversineKm_kmNorth_near)

theorem null_when_nothing_to_cover_witness:
  "buildEfficientCoverageRoute ''7f9c'' [longLane\<lparr>seg_completed := True\<rparr>] (kmNorth 0) (1 / 2) None =
     Some None"
proof -
  have c: "[longLane\<lparr>seg_completed := True\<rparr>] =
      selectCandidateStreets
        (case None of Some bounds \<Rightarrow> filterStreetsToCityBounds [longLane\<lparr>seg_completed := True\<rparr>] bounds
         | None \<Rightarrow> [longLane\<lparr>seg_completed := True\<rparr>]) (kmNorth 0) (max (8 / 10) (1 / 2))"
    by (simp add: selectCandidateStreets_def Let_def longLane_def entryDistance_def mathRound_def
        haversineKm_kmNorth_near)
  have d: "list_all seg_completed [longLane\<lparr>seg_completed := True\<rparr>] \<or>
      [longLane\<lparr>seg_completed := True\<rparr>] = [] \<or>
      edges (buildStreetGraph [longLane\<lparr>seg_completed := True\<rparr>]) = [] \<or>
      nodes (buildStreetGraph [longLane\<lparr>seg_completed := True\<rparr>]) = []"
    by simp
  from null_when_nothing_to_cover[OF c d] show ?thesis .
qed



end
